theory Spec2Isabelle
  imports Main "HOL-Library.Sublist"
begin

section \<open>Python values, exceptions and dictionaries\<close>

text \<open>
  An instance of Python's \<^verbatim>\<open>Exception\<close> (the class every \<^verbatim>\<open>except Exception\<close> clause of
  the module matches), with what the module reads from it: \<^verbatim>\<open>type(err).__name__\<close>,
  \<^verbatim>\<open>str(type(err))\<close>, \<^verbatim>\<open>str(err)\<close>, the text \<^verbatim>\<open>traceback.format_exc()\<close> gives while it is
  handled, and whether it is an \<^verbatim>\<open>asyncio.TimeoutError\<close>.
\<close>

record pyexc =
  exc_name :: string
  exc_type_str :: string
  exc_message :: string
  exc_traceback :: string
  exc_is_timeout :: bool

text \<open>
  What a call or an \<^verbatim>\<open>await\<close> can raise: an instance of \<^verbatim>\<open>Exception\<close>, or an instance of a
  class that derives from \<^verbatim>\<open>BaseException\<close> only, named by its class
  (\<^verbatim>\<open>asyncio.CancelledError\<close>, \<^verbatim>\<open>KeyboardInterrupt\<close>, \<^verbatim>\<open>SystemExit\<close>). No \<^verbatim>\<open>except\<close> clause of
  the module matches the second kind.
\<close>

datatype raised = ExceptionInstance pyexc | BaseExceptionOnly string

text \<open>
  The values that travel through \<^verbatim>\<open>rp_job.py\<close>: decoded JSON bodies, job descriptors and
  handler return values. A \<^verbatim>\<open>dict\<close> is an association list in insertion order; Python keeps
  the keys of a dict distinct. \<open>VObject\<close> is an instance of a class that defines its own
  \<^verbatim>\<open>__eq__\<close> (an array, for one): all the module does with such an object is to test
  \<^verbatim>\<open>obj == {}\<close>, and the constructor carries what that test does, a truth value or an
  exception. Floats are outside this model.
\<close>

datatype pyval =
    VNone
  | VBool bool
  | VInt int
  | VStr string
  | VList "pyval list"
  | VDict "(string \<times> pyval) list"
  | VObject "pyexc + bool"

type_synonym pydict = "(string \<times> pyval) list"

text \<open>\<^verbatim>\<open>key in d\<close>, \<^verbatim>\<open>d[key]\<close>, \<^verbatim>\<open>d.get(key)\<close>, \<^verbatim>\<open>d.pop(key, None)\<close>, \<^verbatim>\<open>d.pop(key)\<close> and \<^verbatim>\<open>d[key] = v\<close>.\<close>

definition dict_contains :: "string \<Rightarrow> pydict \<Rightarrow> bool" where
  "dict_contains k d = (k \<in> fst ` set d)"

definition KeyError :: "string \<Rightarrow> pyexc" where
  "KeyError k =
     \<lparr>exc_name = ''KeyError'',
      exc_type_str = ''<class '' @ [CHR 0x27] @ ''KeyError'' @ [CHR 0x27] @ ''>'',
      exc_message = [CHR 0x27] @ k @ [CHR 0x27],
      exc_traceback = [],
      exc_is_timeout = False\<rparr>"

definition dict_getitem :: "pydict \<Rightarrow> string \<Rightarrow> pyexc + pyval" where
  "dict_getitem d k = (case map_of d k of None \<Rightarrow> Inl (KeyError k) | Some v \<Rightarrow> Inr v)"

definition dict_get :: "pydict \<Rightarrow> string \<Rightarrow> pyval" where
  "dict_get d k = (case map_of d k of None \<Rightarrow> VNone | Some v \<Rightarrow> v)"

definition dict_remove :: "string \<Rightarrow> pydict \<Rightarrow> pydict" where
  "dict_remove k d = filter (\<lambda>kv. fst kv \<noteq> k) d"

definition dict_pop_default :: "pydict \<Rightarrow> string \<Rightarrow> pyval \<times> pydict" where
  "dict_pop_default d k = (dict_get d k, dict_remove k d)"

definition dict_set :: "pydict \<Rightarrow> string \<Rightarrow> pyval \<Rightarrow> pydict" where
  "dict_set d k v =
     (if dict_contains k d then map (\<lambda>kv. if fst kv = k then (k, v) else kv) d
      else d @ [(k, v)])"

text \<open>
  Truth value testing, as \<^verbatim>\<open>if x:\<close> does it; an object is true unless its class says
  otherwise.
\<close>

fun truthy :: "pyval \<Rightarrow> bool" where
  "truthy VNone = False"
| "truthy (VBool b) = b"
| "truthy (VInt i) = (i \<noteq> 0)"
| "truthy (VStr s) = (s \<noteq> [])"
| "truthy (VList xs) = (xs \<noteq> [])"
| "truthy (VDict d) = (d \<noteq> [])"
| "truthy (VObject c) = True"

section \<open>Strings\<close>

text \<open>\<^verbatim>\<open>str(n)\<close> of an integer, as the f-string \<^verbatim>\<open>f"{batch_size}"\<close> renders it.\<close>

fun str_nat :: "nat \<Rightarrow> string" where
  "str_nat n =
     (if n < 10 then [''0123456789'' ! n]
      else str_nat (n div 10) @ [''0123456789'' ! (n mod 10)])"

declare str_nat.simps [simp del]

definition py_str_int :: "int \<Rightarrow> string" where
  "py_str_int i = (if i < 0 then ''-'' @ str_nat (nat (- i)) else str_nat (nat i))"

text \<open>
  \<^verbatim>\<open>s.replace(old, new)\<close>: every non-overlapping occurrence of \<open>old\<close>, found left to right,
  is replaced; an empty \<open>old\<close> matches before every character and at the end.
\<close>

function str_replace :: "string \<Rightarrow> string \<Rightarrow> string \<Rightarrow> string" where
  "str_replace old new [] = (if old = [] then new else [])"
| "str_replace old new (c # cs) =
     (if old = [] then new @ c # str_replace old new cs
      else if prefix old (c # cs) then new @ str_replace old new (drop (length old) (c # cs))
      else c # str_replace old new cs)"
  by pat_completeness auto
termination
  by (relation "measure (\<lambda>(old, new, s). length s)") (auto simp: neq_Nil_conv)

section \<open>The poll URL\<close>

text \<open>
  \<^verbatim>\<open>_job_get_url(batch_size)\<close>. The module constant \<^verbatim>\<open>JOB_GET_URL\<close> comes from the process
  environment and \<^verbatim>\<open>job_list.get_job_count()\<close> from the worker state module: both are
  parameters here, the count a natural number as a queue size is.
\<close>

definition job_get_url :: "string \<Rightarrow> nat \<Rightarrow> int \<Rightarrow> string" where
  "job_get_url JOB_GET_URL job_count batch_size =
     (let job_in_progress = (if job_count \<noteq> 0 then ''1'' else ''0'');
          job_take_url =
            (if batch_size > 1
             then str_replace ''/job-take/'' ''/job-take-batch/'' JOB_GET_URL
                    @ ''&batch_size='' @ py_str_int batch_size @ ''&batch_strategy=LMove''
             else JOB_GET_URL)
      in job_take_url @ ''&job_in_progress='' @ job_in_progress)"

section \<open>Acquisition\<close>

text \<open>
  What \<^verbatim>\<open>session.get(url)\<close> hands back when it does not raise: the status code and the outcome
  of \<^verbatim>\<open>await response.json()\<close>, which raises on a body that does not decode.
\<close>

record http_response =
  resp_status :: int
  resp_json :: "raised + pyval"

text \<open>The lines \<^verbatim>\<open>get_job\<close> writes to the log, one constructor per call site.\<close>

datatype log_event =
    DebugNoContent
  | DebugStatus400
  | ErrorStatusCode int
  | DebugRequestReceived pyval
  | DebugTimeout
  | ErrorFailedToGetJob string string

text \<open>\<^verbatim>\<open>Exception("Job has missing field(s): id or input.")\<close>\<close>

definition missing_fields_exception :: pyexc where
  "missing_fields_exception =
     \<lparr>exc_name = ''Exception'',
      exc_type_str = ''<class '' @ [CHR 0x27] @ ''Exception'' @ [CHR 0x27] @ ''>'',
      exc_message = ''Job has missing field(s): id or input.'',
      exc_traceback = [],
      exc_is_timeout = False\<rparr>"

text \<open>
  The \<^verbatim>\<open>try\<close> block of \<^verbatim>\<open>get_job\<close>. \<open>Inl e\<close>: the block raised \<open>e\<close>; \<open>Inr (Some v)\<close>: a
  \<^verbatim>\<open>return\<close> statement returned \<open>v\<close> (a bare \<^verbatim>\<open>return\<close> returns \<^verbatim>\<open>None\<close>); \<open>Inr None\<close>: control
  left the block at its end.
\<close>

definition get_job_try ::
  "(string \<Rightarrow> raised + http_response) \<Rightarrow> string \<Rightarrow> (raised + pyval option) \<times> log_event list" where
  "get_job_try session url =
     (case session url of
        Inl e \<Rightarrow> (Inl e, [])
      | Inr response \<Rightarrow>
          if resp_status response = 204 then (Inr (Some VNone), [DebugNoContent])
          else if resp_status response = 400 then (Inr (Some VNone), [DebugStatus400])
          else if resp_status response \<noteq> 200
            then (Inr (Some VNone), [ErrorStatusCode (resp_status response)])
          else (case resp_json response of
                  Inl e \<Rightarrow> (Inl e, [])
                | Inr jobs \<Rightarrow>
                    (case jobs of
                       VDict d \<Rightarrow>
                         if \<not> dict_contains ''id'' d \<or> \<not> dict_contains ''input'' d
                         then (Inl (ExceptionInstance missing_fields_exception),
                               [DebugRequestReceived jobs])
                         else (Inr (Some (VList [jobs])), [DebugRequestReceived jobs])
                     | VList js \<Rightarrow> (Inr (Some jobs), [DebugRequestReceived jobs])
                     | _ \<Rightarrow> (Inr None, [DebugRequestReceived jobs]))))"

text \<open>
  \<^verbatim>\<open>get_job(session, num_jobs)\<close>: the \<^verbatim>\<open>try\<close> block, the clauses
  \<^verbatim>\<open>except asyncio.TimeoutError\<close> and \<^verbatim>\<open>except Exception\<close>, and the final \<^verbatim>\<open>return []\<close>. What
  neither clause matches goes on to the caller. The result is what the caller receives
  (\<open>Inl\<close>: it is raised) and the log.
\<close>

definition get_job ::
  "(string \<Rightarrow> raised + http_response) \<Rightarrow> string \<Rightarrow> nat \<Rightarrow> int \<Rightarrow> (raised + pyval) \<times> log_event list" where
  "get_job session JOB_GET_URL job_count num_jobs =
     (case get_job_try session (job_get_url JOB_GET_URL job_count num_jobs) of
        (Inr (Some v), lg) \<Rightarrow> (Inr v, lg)
      | (Inr None, lg) \<Rightarrow> (Inr (VList []), lg)
      | (Inl (ExceptionInstance e), lg) \<Rightarrow>
          if exc_is_timeout e then (Inr (VList []), lg @ [DebugTimeout])
          else (Inr (VList []), lg @ [ErrorFailedToGetJob (exc_name e) (exc_message e)])
      | (Inl (BaseExceptionOnly b), lg) \<Rightarrow> (Inl (BaseExceptionOnly b), lg))"

section \<open>Invocation, terminal form\<close>

text \<open>
  \<^verbatim>\<open>json.dumps\<close> of a dict whose keys and values are strings, with the defaults
  (\<^verbatim>\<open>ensure_ascii=True\<close>, separators \<^verbatim>\<open>", "\<close> and \<^verbatim>\<open>": "\<close>). Characters are code points
  below 256.
\<close>

definition hex4 :: "nat \<Rightarrow> string" where
  "hex4 n =
     [''0123456789abcdef'' ! (n div 4096 mod 16), ''0123456789abcdef'' ! (n div 256 mod 16),
      ''0123456789abcdef'' ! (n div 16 mod 16), ''0123456789abcdef'' ! (n mod 16)]"

definition json_escape_char :: "char \<Rightarrow> string" where
  "json_escape_char c =
     (if c = CHR 0x22 then [CHR 0x5C, CHR 0x22]
      else if c = CHR 0x5C then [CHR 0x5C, CHR 0x5C]
      else if c = CHR 0x0A then [CHR 0x5C, CHR ''n'']
      else if c = CHR 0x0D then [CHR 0x5C, CHR ''r'']
      else if c = CHR 0x09 then [CHR 0x5C, CHR ''t'']
      else if c = CHR 0x0C then [CHR 0x5C, CHR ''f'']
      else if c = CHR 0x08 then [CHR 0x5C, CHR ''b'']
      else if 32 \<le> (of_char c :: nat) \<and> (of_char c :: nat) \<le> 126 then [c]
      else [CHR 0x5C, CHR ''u''] @ hex4 (of_char c))"

definition json_string :: "string \<Rightarrow> string" where
  "json_string s = [CHR 0x22] @ concat (map json_escape_char s) @ [CHR 0x22]"

fun json_members :: "(string \<times> string) list \<Rightarrow> string" where
  "json_members [] = []"
| "json_members [(k, v)] = json_string k @ '': '' @ json_string v"
| "json_members ((k, v) # kvs) = json_string k @ '': '' @ json_string v @ '', '' @ json_members kvs"

definition json_dumps :: "(string \<times> string) list \<Rightarrow> string" where
  "json_dumps kvs = ''{'' @ json_members kvs @ ''}''"

text \<open>
  The process environment and the package version, read when a fault is reported:
  \<^verbatim>\<open>os.environ.get(name, "unknown")\<close> and \<^verbatim>\<open>runpod_version\<close>.
\<close>

record worker_env =
  RUNPOD_POD_HOSTNAME :: "string option"
  RUNPOD_POD_ID :: "string option"
  runpod_version :: string

definition environ_get :: "string option \<Rightarrow> string \<Rightarrow> string" where
  "environ_get var fallback = (case var of None \<Rightarrow> fallback | Some v \<Rightarrow> v)"

text \<open>The \<^verbatim>\<open>except Exception as err\<close> block of \<^verbatim>\<open>run_job\<close>: \<^verbatim>\<open>error_info\<close> and the new \<^verbatim>\<open>run_result\<close>.\<close>

definition error_info :: "worker_env \<Rightarrow> pyexc \<Rightarrow> (string \<times> string) list" where
  "error_info env err =
     [(''error_type'', exc_type_str err),
      (''error_message'', exc_message err),
      (''error_traceback'', exc_traceback err),
      (''hostname'', environ_get (RUNPOD_POD_HOSTNAME env) ''unknown''),
      (''worker_id'', environ_get (RUNPOD_POD_ID env) ''unknown''),
      (''runpod_version'', runpod_version env)]"

definition captured_handler_exception :: "worker_env \<Rightarrow> pyexc \<Rightarrow> pydict" where
  "captured_handler_exception env err = [(''error'', VStr (json_dumps (error_info env err)))]"

text \<open>
  A handler is called with the job; the call raises or returns. What it returns is a value
  or an awaitable, which \<^verbatim>\<open>run_job\<close> awaits: the await raises or gives a value.
\<close>

datatype handler_return = Direct pyval | Awaitable "raised + pyval"

type_synonym handler = "pydict \<Rightarrow> raised + handler_return"

definition resolve_handler_return :: "raised + handler_return \<Rightarrow> raised + pyval" where
  "resolve_handler_return r =
     (case r of
        Inl e \<Rightarrow> Inl e
      | Inr (Direct v) \<Rightarrow> Inr v
      | Inr (Awaitable a) \<Rightarrow> a)"

text \<open>
  The branches on \<^verbatim>\<open>job_output\<close>. The two \<^verbatim>\<open>pop\<close> calls change the handler's dict itself,
  and \<^verbatim>\<open>run_result["output"]\<close> is that same dict: the function returns \<^verbatim>\<open>run_result\<close> and
  the state of the handler's object after the branch.
\<close>

definition normalize_job_output :: "pyval \<Rightarrow> pydict \<times> pyval" where
  "normalize_job_output job_output =
     (case job_output of
        VDict d \<Rightarrow>
          (let (error_msg, d1) = dict_pop_default d ''error'';
               (refresh_worker, d2) = dict_pop_default d1 ''refresh_worker'';
               r1 = dict_set [] ''output'' (VDict d2);
               r2 = (if truthy error_msg then dict_set r1 ''error'' error_msg else r1);
               r3 = (if truthy refresh_worker then dict_set r2 ''stopPod'' (VBool True) else r2)
           in (r3, VDict d2))
      | VBool b \<Rightarrow> ([(''output'', job_output)], job_output)
      | _ \<Rightarrow> ([(''output'', job_output)], job_output))"

text \<open>The test \<^verbatim>\<open>v == {}\<close> as an \<^verbatim>\<open>if\<close> sees it: only an empty dict equals \<^verbatim>\<open>{}\<close>.\<close>

definition eq_empty_dict :: "pyval \<Rightarrow> pyexc + bool" where
  "eq_empty_dict v =
     (case v of
        VDict d \<Rightarrow> Inr (d = [])
      | VObject c \<Rightarrow> c
      | _ \<Rightarrow> Inr False)"

text \<open>\<^verbatim>\<open>if run_result.get("output") == {}: run_result.pop("output")\<close>\<close>

definition drop_empty_output :: "pydict \<Rightarrow> pyexc + pydict" where
  "drop_empty_output run_result =
     (case eq_empty_dict (dict_get run_result ''output'') of
        Inl err \<Rightarrow> Inl err
      | Inr is_empty \<Rightarrow>
          Inr (if is_empty then dict_remove ''output'' run_result else run_result))"

text \<open>
  What a call of \<^verbatim>\<open>run_job\<close> leaves behind: what the caller receives (\<open>Inl\<close>: it is raised,
  \<open>Inr\<close>: the dict \<^verbatim>\<open>run_result\<close>) and the object the handler returned, as it is after the
  call (\<open>None\<close> when the handler gave no value).
\<close>

record run_job_outcome =
  returned :: "raised + pydict"
  handler_object :: "pyval option"

text \<open>
  The \<^verbatim>\<open>try\<close> block of \<^verbatim>\<open>run_job\<close>, from the outcome of the handler call on: the await, the
  \<^verbatim>\<open>log.debug\<close> call that reads \<^verbatim>\<open>job["id"]\<close> from the job as the handler left it, the branches
  on \<^verbatim>\<open>job_output\<close>, the test for an empty output and the size check.
  \<^verbatim>\<open>check_return_size\<close> lives in another module: it is a parameter, answering \<open>Some r\<close> when
  it raises \<open>r\<close>.
\<close>

definition run_job_try ::
  "(pydict \<Rightarrow> raised option) \<Rightarrow> raised + handler_return \<Rightarrow> pydict
     \<Rightarrow> (raised + pydict) \<times> pyval option" where
  "run_job_try check_return_size handler_return job =
     (case resolve_handler_return handler_return of
        Inl r \<Rightarrow> (Inl r, None)
      | Inr job_output \<Rightarrow>
          (case dict_getitem job ''id'' of
             Inl e \<Rightarrow> (Inl (ExceptionInstance e), Some job_output)
           | Inr _ \<Rightarrow>
               (let (run_result, job_output') = normalize_job_output job_output
                in case drop_empty_output run_result of
                     Inl err \<Rightarrow> (Inl (ExceptionInstance err), Some job_output')
                   | Inr run_result' \<Rightarrow>
                       (case check_return_size run_result' of
                          Some r \<Rightarrow> (Inl r, Some job_output')
                        | None \<Rightarrow> (Inr run_result', Some job_output')))))"

text \<open>
  \<^verbatim>\<open>run_job(handler, job)\<close> in full. The handler gets the job dict itself and may change it:
  it answers with the outcome of its call and with the job as it is once its work is over.
  The first \<^verbatim>\<open>log.info\<close> call reads \<^verbatim>\<open>job["id"]\<close> before the \<^verbatim>\<open>try\<close>. The \<^verbatim>\<open>except Exception\<close>
  block reads \<^verbatim>\<open>job["id"]\<close> again before it builds the error record, and the \<^verbatim>\<open>finally\<close>
  block reads it whatever happened: a \<^verbatim>\<open>KeyError\<close> raised there takes the place of what
  was being raised.
\<close>

definition run_job_full ::
  "worker_env \<Rightarrow> (pydict \<Rightarrow> raised option) \<Rightarrow> (pydict \<Rightarrow> (raised + handler_return) \<times> pydict)
     \<Rightarrow> pydict \<Rightarrow> run_job_outcome" where
  "run_job_full env check_return_size handler job =
     (case dict_getitem job ''id'' of
        Inl e \<Rightarrow> \<lparr>returned = Inl (ExceptionInstance e), handler_object = None\<rparr>
      | Inr _ \<Rightarrow>
          (let (handler_return, job') = handler job;
               (tried, obj) = run_job_try check_return_size handler_return job'
           in case tried of
                Inr run_result \<Rightarrow> \<lparr>returned = Inr run_result, handler_object = obj\<rparr>
              | Inl (ExceptionInstance err) \<Rightarrow>
                  (case dict_getitem job' ''id'' of
                     Inl e \<Rightarrow> \<lparr>returned = Inl (ExceptionInstance e), handler_object = obj\<rparr>
                   | Inr _ \<Rightarrow>
                       \<lparr>returned = Inr (captured_handler_exception env err),
                        handler_object = obj\<rparr>)
              | Inl (BaseExceptionOnly b) \<Rightarrow>
                  (case dict_getitem job' ''id'' of
                     Inl e \<Rightarrow> \<lparr>returned = Inl (ExceptionInstance e), handler_object = obj\<rparr>
                   | Inr _ \<Rightarrow> \<lparr>returned = Inl (BaseExceptionOnly b), handler_object = obj\<rparr>)))"

text \<open>
  \<^verbatim>\<open>run_job\<close> for a handler that leaves the job as it got it and a size check that raises
  instances of \<^verbatim>\<open>Exception\<close> only.
\<close>

definition run_job ::
  "worker_env \<Rightarrow> (pydict \<Rightarrow> pyexc option) \<Rightarrow> handler \<Rightarrow> pydict \<Rightarrow> run_job_outcome" where
  "run_job env check_return_size handler job =
     run_job_full env (\<lambda>run_result. map_option ExceptionInstance (check_return_size run_result))
       (\<lambda>j. (handler j, j)) job"

section \<open>Invocation, streaming form\<close>






section \<open>Fixed collaborators\<close>

text \<open>
  A collaborator that gives the same answer whatever it is asked: a session that answers
  every request with one response, a handler that returns one value, a size check that
  always passes.
\<close>

definition always :: "'a \<Rightarrow> 'b \<Rightarrow> 'a" where
  "always r x = r"

text \<open>The size check accepts the dict that \<^verbatim>\<open>run_job\<close> builds from the handler's value.\<close>

definition size_check_passes :: "(pydict \<Rightarrow> pyexc option) \<Rightarrow> pyval \<Rightarrow> bool" where
  "size_check_passes check_return_size job_output =
     (case drop_empty_output (fst (normalize_job_output job_output)) of
        Inl err \<Rightarrow> False
      | Inr run_result \<Rightarrow> check_return_size run_result = None)"

section \<open>Facts about strings\<close>

lemma sublist_append_sep:
  "c \<notin> set xs \<Longrightarrow> sublist xs (ys @ c # zs) \<longleftrightarrow> sublist xs ys \<or> sublist xs zs"
  by (auto simp: sublist_append sublist_Cons_right prefix_Cons)

lemma prefix_append_short:
  "prefix xs (ys @ zs) \<Longrightarrow> length xs \<le> length ys \<Longrightarrow> prefix xs ys"
  by (auto simp: prefix_append)

lemma str_replace_first:
  "old \<noteq> [] \<Longrightarrow> \<not> sublist old (p @ butlast old) \<Longrightarrow>
   str_replace old new (p @ old @ s) = p @ new @ str_replace old new s"
proof (induction p)
  case Nil
  then show ?case by (cases old) auto
next
  case (Cons c p)
  have "\<not> prefix old ((c # p) @ old @ s)"
  proof
    assume "prefix old ((c # p) @ old @ s)"
    moreover have "old @ s = butlast old @ (last old # s)"
      using Cons.prems(1) by (metis append_butlast_last_id append_Cons append_Nil append_assoc)
    ultimately have "prefix old (((c # p) @ butlast old) @ (last old # s))"
      by (simp only: append_assoc)
    then have "prefix old ((c # p) @ butlast old)"
      by (rule prefix_append_short) simp
    then show False using Cons.prems(2) by auto
  qed
  moreover have "\<not> sublist old (p @ butlast old)"
    using Cons.prems(2) by (auto simp: sublist_Cons_right)
  ultimately show ?case using Cons by simp
qed

lemma str_replace_none: "\<not> sublist old s \<Longrightarrow> str_replace old new s = s"
  by (induction s) (auto simp: sublist_Cons_right)

lemma sublist_append_sep2:
  "c \<notin> set xs \<Longrightarrow> \<not> sublist xs ys \<Longrightarrow> \<not> sublist xs zs \<Longrightarrow> \<not> sublist xs (ys @ c # zs)"
  by (simp add: sublist_append_sep)

section \<open>The poll URL: properties\<close>

text \<open>
  C5. With a batch size of at most 1 the URL is the base URL followed by the
  \<^verbatim>\<open>job_in_progress\<close> parameter and nothing else, so it contains \<^verbatim>\<open>batch_size\<close> or
  \<^verbatim>\<open>batch_strategy\<close> only if the base URL does. With a batch size above 1 the first
  \<^verbatim>\<open>/job-take/\<close> of the base URL is turned into \<^verbatim>\<open>/job-take-batch/\<close> and the URL contains
  \<^verbatim>\<open>batch_size=N\<close> and \<^verbatim>\<open>batch_strategy=LMove\<close>. In both cases the URL ends with
  \<^verbatim>\<open>&job_in_progress=1\<close> when the backlog holds at least one job and with
  \<^verbatim>\<open>&job_in_progress=0\<close> otherwise.
\<close>

theorem job_get_url_poll_parameters:
  "(batch_size \<le> 1 \<longrightarrow>
      job_get_url base cnt batch_size = base @ ''&job_in_progress='' @ (if 1 \<le> cnt then ''1'' else ''0''))
   \<and> (batch_size \<le> 1 \<and> \<not> sublist ''batch_size'' base \<and> \<not> sublist ''batch_strategy'' base \<longrightarrow>
      \<not> sublist ''batch_size'' (job_get_url base cnt batch_size)
      \<and> \<not> sublist ''batch_strategy'' (job_get_url base cnt batch_size))
   \<and> (1 < batch_size \<and> base = p @ ''/job-take/'' @ s
        \<and> \<not> sublist ''/job-take/'' (p @ ''/job-take'') \<and> \<not> sublist ''/job-take/'' s \<longrightarrow>
      job_get_url base cnt batch_size =
        p @ ''/job-take-batch/'' @ s @ ''&batch_size='' @ py_str_int batch_size
          @ ''&batch_strategy=LMove'' @ ''&job_in_progress='' @ (if 1 \<le> cnt then ''1'' else ''0''))
   \<and> (1 < batch_size \<longrightarrow>
      sublist (''batch_size='' @ py_str_int batch_size) (job_get_url base cnt batch_size)
      \<and> sublist ''batch_strategy=LMove'' (job_get_url base cnt batch_size))
   \<and> suffix (''&job_in_progress='' @ (if 1 \<le> cnt then ''1'' else ''0''))
        (job_get_url base cnt batch_size)"
proof (intro conjI impI)
  assume "batch_size \<le> 1"
  then show "job_get_url base cnt batch_size
      = base @ ''&job_in_progress='' @ (if 1 \<le> cnt then ''1'' else ''0'')"
    by (simp add: job_get_url_def)
next
  assume h: "batch_size \<le> 1 \<and> \<not> sublist ''batch_size'' base \<and> \<not> sublist ''batch_strategy'' base"
  then have u: "job_get_url base cnt batch_size
      = base @ CHR ''&'' # (''job_in_progress='' @ (if 1 \<le> cnt then ''1'' else ''0''))"
    by (simp add: job_get_url_def)
  have "\<not> sublist ''batch_size'' (''job_in_progress='' @ (if 1 \<le> cnt then ''1'' else ''0''))"
    by (simp add: sublist_Cons_right)
  with h show "\<not> sublist ''batch_size'' (job_get_url base cnt batch_size)"
    unfolding u by (intro sublist_append_sep2) simp_all
  have "\<not> sublist ''batch_strategy'' (''job_in_progress='' @ (if 1 \<le> cnt then ''1'' else ''0''))"
    by (simp add: sublist_Cons_right)
  with h show "\<not> sublist ''batch_strategy'' (job_get_url base cnt batch_size)"
    unfolding u by (intro sublist_append_sep2) simp_all
next
  assume h: "1 < batch_size \<and> base = p @ ''/job-take/'' @ s
        \<and> \<not> sublist ''/job-take/'' (p @ ''/job-take'') \<and> \<not> sublist ''/job-take/'' s"
  then have "\<not> sublist ''/job-take/'' (p @ butlast ''/job-take/'')" by simp
  then have "str_replace ''/job-take/'' ''/job-take-batch/'' (p @ ''/job-take/'' @ s)
      = p @ ''/job-take-batch/'' @ str_replace ''/job-take/'' ''/job-take-batch/'' s"
    by (intro str_replace_first) simp_all
  moreover have "str_replace ''/job-take/'' ''/job-take-batch/'' s = s"
    using h by (intro str_replace_none) simp
  ultimately show "job_get_url base cnt batch_size =
        p @ ''/job-take-batch/'' @ s @ ''&batch_size='' @ py_str_int batch_size
          @ ''&batch_strategy=LMove'' @ ''&job_in_progress='' @ (if 1 \<le> cnt then ''1'' else ''0'')"
    using h by (simp add: job_get_url_def)
next
  assume h: "1 < batch_size"
  let ?r = "str_replace ''/job-take/'' ''/job-take-batch/'' base"
  let ?f = "''&job_in_progress='' @ (if 1 \<le> cnt then ''1'' else ''0'')"
  have u1: "job_get_url base cnt batch_size
      = (?r @ ''&'') @ (''batch_size='' @ py_str_int batch_size) @ (''&batch_strategy=LMove'' @ ?f)"
    using h by (simp add: job_get_url_def)
  show "sublist (''batch_size='' @ py_str_int batch_size) (job_get_url base cnt batch_size)"
    unfolding u1 by (rule sublist_appendI)
  have u2: "job_get_url base cnt batch_size
      = (?r @ ''&batch_size='' @ py_str_int batch_size @ ''&'') @ ''batch_strategy=LMove'' @ ?f"
    using h by (simp add: job_get_url_def)
  show "sublist ''batch_strategy=LMove'' (job_get_url base cnt batch_size)"
    unfolding u2 by (rule sublist_appendI)
next
  show "suffix (''&job_in_progress='' @ (if 1 \<le> cnt then ''1'' else ''0''))
        (job_get_url base cnt batch_size)"
    by (simp add: job_get_url_def Let_def suffix_def)
qed

theorem job_get_url_poll_parameters_witness:
  "((1::int) \<le> 1 \<and> \<not> sublist ''batch_size'' ''https://api.runpod.ai/v2/ep/job-take/w1?gpu=A''
      \<and> \<not> sublist ''batch_strategy'' ''https://api.runpod.ai/v2/ep/job-take/w1?gpu=A'')
   \<and> job_get_url ''https://api.runpod.ai/v2/ep/job-take/w1?gpu=A'' 0 1
        = ''https://api.runpod.ai/v2/ep/job-take/w1?gpu=A&job_in_progress=0''
   \<and> \<not> sublist ''batch_size'' (job_get_url ''https://api.runpod.ai/v2/ep/job-take/w1?gpu=A'' 0 1)
   \<and> \<not> sublist ''batch_strategy'' (job_get_url ''https://api.runpod.ai/v2/ep/job-take/w1?gpu=A'' 0 1)
   \<and> ((1::int) < 5 \<and> \<not> sublist ''/job-take/'' (''https://api.runpod.ai/v2/ep'' @ ''/job-take'')
      \<and> \<not> sublist ''/job-take/'' ''w1?gpu=A'')
   \<and> job_get_url ''https://api.runpod.ai/v2/ep/job-take/w1?gpu=A'' 2 5
        = ''https://api.runpod.ai/v2/ep/job-take-batch/w1?gpu=A&batch_size=5&batch_strategy=LMove&job_in_progress=1''"
  using job_get_url_poll_parameters
    [of 1 "''https://api.runpod.ai/v2/ep/job-take/w1?gpu=A''" 0 "''https://api.runpod.ai/v2/ep''" "''w1?gpu=A''"]
    job_get_url_poll_parameters
    [of 5 "''https://api.runpod.ai/v2/ep/job-take/w1?gpu=A''" 2 "''https://api.runpod.ai/v2/ep''" "''w1?gpu=A''"]
  by (simp add: sublist_Cons_right py_str_int_def str_nat.simps)

section \<open>Acquisition: properties\<close>

lemma get_job_request_raises:
  "session (job_get_url base cnt n) = Inl (ExceptionInstance e) \<Longrightarrow>
   get_job session base cnt n =
     (Inr (VList []),
      [if exc_is_timeout e then DebugTimeout else ErrorFailedToGetJob (exc_name e) (exc_message e)])"
  by (simp add: get_job_def get_job_try_def)

lemma get_job_request_raises_base:
  "session (job_get_url base cnt n) = Inl (BaseExceptionOnly b) \<Longrightarrow>
   get_job session base cnt n = (Inl (BaseExceptionOnly b), [])"
  by (simp add: get_job_def get_job_try_def)

lemma get_job_not_200:
  "session (job_get_url base cnt n) = Inr resp \<Longrightarrow> resp_status resp \<noteq> 200 \<Longrightarrow>
   fst (get_job session base cnt n) = Inr VNone"
  by (simp add: get_job_def get_job_try_def)

lemma get_job_parse_raises:
  "session (job_get_url base cnt n) = Inr resp \<Longrightarrow> resp_status resp = 200 \<Longrightarrow>
   resp_json resp = Inl (ExceptionInstance e) \<Longrightarrow>
   get_job session base cnt n =
     (Inr (VList []),
      [if exc_is_timeout e then DebugTimeout else ErrorFailedToGetJob (exc_name e) (exc_message e)])"
  by (simp add: get_job_def get_job_try_def)

lemma get_job_parse_raises_base:
  "session (job_get_url base cnt n) = Inr resp \<Longrightarrow> resp_status resp = 200 \<Longrightarrow>
   resp_json resp = Inl (BaseExceptionOnly b) \<Longrightarrow>
   get_job session base cnt n = (Inl (BaseExceptionOnly b), [])"
  by (simp add: get_job_def get_job_try_def)

lemma get_job_200:
  "session (job_get_url base cnt n) = Inr resp \<Longrightarrow> resp_status resp = 200 \<Longrightarrow>
   resp_json resp = Inr jobs \<Longrightarrow>
   get_job session base cnt n =
     (case jobs of
        VDict d \<Rightarrow>
          if dict_contains ''id'' d \<and> dict_contains ''input'' d
          then (Inr (VList [jobs]), [DebugRequestReceived jobs])
          else (Inr (VList []),
                [DebugRequestReceived jobs,
                 ErrorFailedToGetJob ''Exception'' ''Job has missing field(s): id or input.''])
      | VList js \<Rightarrow> (Inr jobs, [DebugRequestReceived jobs])
      | _ \<Rightarrow> (Inr (VList []), [DebugRequestReceived jobs]))"
  by (cases jobs) (auto simp add: get_job_def get_job_try_def missing_fields_exception_def)

lemma get_job_raises_iff:
  "(\<exists>r. fst (get_job session base cnt n) = Inl r) \<longleftrightarrow>
   (\<exists>b. session (job_get_url base cnt n) = Inl (BaseExceptionOnly b)
        \<or> (\<exists>resp. session (job_get_url base cnt n) = Inr resp \<and> resp_status resp = 200
              \<and> resp_json resp = Inl (BaseExceptionOnly b)))"
proof (cases "session (job_get_url base cnt n)")
  case (Inl r)
  then show ?thesis
    by (cases r) (simp_all add: get_job_request_raises get_job_request_raises_base)
next
  case (Inr resp)
  show ?thesis
  proof (cases "resp_status resp = 200")
    case False
    with Inr show ?thesis by (simp add: get_job_not_200)
  next
    case True
    show ?thesis
    proof (cases "resp_json resp")
      case (Inl r)
      with Inr True show ?thesis
        by (cases r) (simp_all add: get_job_parse_raises get_job_parse_raises_base)
    next
      case (Inr jobs)
      with \<open>session (job_get_url base cnt n) = Inr resp\<close> True show ?thesis
        by (simp add: get_job_200 split: pyval.split)
    qed
  qed
qed

text \<open>
  C1, as the claim states it, fails: on status 204 \<^verbatim>\<open>get_job\<close> executes a bare \<^verbatim>\<open>return\<close>, so
  its caller receives \<^verbatim>\<open>None\<close> and not an empty list.
\<close>

theorem get_job_status_204_counterexample:
  "fst (get_job (always (Inr \<lparr>resp_status = 204, resp_json = Inr VNone\<rparr>))
         ''https://api.runpod.ai/v2/ep/job-take/w1?gpu=A'' 0 1) = Inr VNone
   \<and> fst (get_job (always (Inr \<lparr>resp_status = 204, resp_json = Inr VNone\<rparr>))
         ''https://api.runpod.ai/v2/ep/job-take/w1?gpu=A'' 0 1) \<noteq> Inr (VList [])"
  by (simp add: get_job_def get_job_try_def always_def)

text \<open>
  C1, amended. On every status other than 200 (204, 400 and the rest) \<^verbatim>\<open>get_job\<close> returns
  \<^verbatim>\<open>None\<close>. When the request, or the decoding of the body of a 200 response, raises an
  instance of \<^verbatim>\<open>Exception\<close> (an \<^verbatim>\<open>asyncio.TimeoutError\<close> among them), it returns the empty
  list. When either raises something that is not an instance of \<^verbatim>\<open>Exception\<close>, no
  \<^verbatim>\<open>except\<close> clause matches and \<^verbatim>\<open>get_job\<close> raises it to its caller; \<^verbatim>\<open>get_job\<close> raises in
  these two cases and in no other.
\<close>

theorem get_job_failure_results:
  "(session (job_get_url base cnt n) = Inr resp \<and> resp_status resp \<noteq> 200 \<longrightarrow>
        fst (get_job session base cnt n) = Inr VNone)
   \<and> (session (job_get_url base cnt n) = Inl (ExceptionInstance e) \<longrightarrow>
        fst (get_job session base cnt n) = Inr (VList []))
   \<and> (session (job_get_url base cnt n) = Inr resp \<and> resp_status resp = 200
        \<and> resp_json resp = Inl (ExceptionInstance e) \<longrightarrow>
        fst (get_job session base cnt n) = Inr (VList []))
   \<and> (session (job_get_url base cnt n) = Inl (BaseExceptionOnly b) \<longrightarrow>
        fst (get_job session base cnt n) = Inl (BaseExceptionOnly b))
   \<and> (session (job_get_url base cnt n) = Inr resp \<and> resp_status resp = 200
        \<and> resp_json resp = Inl (BaseExceptionOnly b) \<longrightarrow>
        fst (get_job session base cnt n) = Inl (BaseExceptionOnly b))
   \<and> ((\<exists>r. fst (get_job session base cnt n) = Inl r) \<longleftrightarrow>
        (\<exists>c. session (job_get_url base cnt n) = Inl (BaseExceptionOnly c)
             \<or> (\<exists>response. session (job_get_url base cnt n) = Inr response
                   \<and> resp_status response = 200
                   \<and> resp_json response = Inl (BaseExceptionOnly c))))"
  using get_job_raises_iff [of session base cnt n]
  by (simp add: get_job_not_200 get_job_request_raises get_job_parse_raises
      get_job_request_raises_base get_job_parse_raises_base)

theorem get_job_failure_results_witness:
  "(resp_status \<lparr>resp_status = 500, resp_json = Inr VNone\<rparr> \<noteq> 200
    \<and> fst (get_job (always (Inr \<lparr>resp_status = 500, resp_json = Inr VNone\<rparr>))
          ''https://api.runpod.ai/v2/ep/job-take/w1?gpu=A'' 0 1) = Inr VNone)
   \<and> fst (get_job (always (Inl (ExceptionInstance
          \<lparr>exc_name = ''TimeoutError'', exc_type_str = ''<class TimeoutError>'',
           exc_message = [], exc_traceback = [], exc_is_timeout = True\<rparr>)))
          ''https://api.runpod.ai/v2/ep/job-take/w1?gpu=A'' 0 1) = Inr (VList [])
   \<and> fst (get_job (always (Inr \<lparr>resp_status = 200, resp_json =
          Inl (ExceptionInstance
            \<lparr>exc_name = ''JSONDecodeError'', exc_type_str = ''<class json.decoder.JSONDecodeError>'',
             exc_message = ''Expecting value: line 1 column 1 (char 0)'', exc_traceback = [],
             exc_is_timeout = False\<rparr>)\<rparr>))
          ''https://api.runpod.ai/v2/ep/job-take/w1?gpu=A'' 0 1) = Inr (VList [])
   \<and> fst (get_job (always (Inl (BaseExceptionOnly ''CancelledError'')))
          ''https://api.runpod.ai/v2/ep/job-take/w1?gpu=A'' 0 1)
        = Inl (BaseExceptionOnly ''CancelledError'')
   \<and> fst (get_job (always (Inr \<lparr>resp_status = 200,
            resp_json = Inl (BaseExceptionOnly ''CancelledError'')\<rparr>))
          ''https://api.runpod.ai/v2/ep/job-take/w1?gpu=A'' 0 1)
        = Inl (BaseExceptionOnly ''CancelledError'')"
  using
    get_job_failure_results
      [of "always (Inr \<lparr>resp_status = 500, resp_json = Inr VNone\<rparr>)"
          "''https://api.runpod.ai/v2/ep/job-take/w1?gpu=A''" 0 1
          "\<lparr>resp_status = 500, resp_json = Inr VNone\<rparr>"]
    get_job_failure_results
      [of "always (Inl (ExceptionInstance
          \<lparr>exc_name = ''TimeoutError'', exc_type_str = ''<class TimeoutError>'',
           exc_message = [], exc_traceback = [], exc_is_timeout = True\<rparr>))"
          "''https://api.runpod.ai/v2/ep/job-take/w1?gpu=A''" 0 1 _
          "\<lparr>exc_name = ''TimeoutError'', exc_type_str = ''<class TimeoutError>'',
           exc_message = [], exc_traceback = [], exc_is_timeout = True\<rparr>"]
    get_job_failure_results
      [of "always (Inr \<lparr>resp_status = 200, resp_json =
          Inl (ExceptionInstance
            \<lparr>exc_name = ''JSONDecodeError'', exc_type_str = ''<class json.decoder.JSONDecodeError>'',
             exc_message = ''Expecting value: line 1 column 1 (char 0)'', exc_traceback = [],
             exc_is_timeout = False\<rparr>)\<rparr>)"
          "''https://api.runpod.ai/v2/ep/job-take/w1?gpu=A''" 0 1
          "\<lparr>resp_status = 200, resp_json =
          Inl (ExceptionInstance
            \<lparr>exc_name = ''JSONDecodeError'', exc_type_str = ''<class json.decoder.JSONDecodeError>'',
             exc_message = ''Expecting value: line 1 column 1 (char 0)'', exc_traceback = [],
             exc_is_timeout = False\<rparr>)\<rparr>"
          "\<lparr>exc_name = ''JSONDecodeError'', exc_type_str = ''<class json.decoder.JSONDecodeError>'',
             exc_message = ''Expecting value: line 1 column 1 (char 0)'', exc_traceback = [],
             exc_is_timeout = False\<rparr>"]
    get_job_failure_results
      [of "always (Inl (BaseExceptionOnly ''CancelledError''))"
          "''https://api.runpod.ai/v2/ep/job-take/w1?gpu=A''" 0 1 _ _ "''CancelledError''"]
    get_job_failure_results
      [of "always (Inr \<lparr>resp_status = 200,
            resp_json = Inl (BaseExceptionOnly ''CancelledError'')\<rparr>)"
          "''https://api.runpod.ai/v2/ep/job-take/w1?gpu=A''" 0 1
          "\<lparr>resp_status = 200, resp_json = Inl (BaseExceptionOnly ''CancelledError'')\<rparr>"
          _ "''CancelledError''"]
  by (simp add: always_def)

text \<open>
  C6. On a 200 response whose body decodes: an object with both an \<^verbatim>\<open>id\<close> and an \<^verbatim>\<open>input\<close>
  field is returned as a one-element list; an object that lacks either makes \<^verbatim>\<open>get_job\<close>
  raise inside its \<^verbatim>\<open>try\<close>, log the failure and return the empty list; an array is returned
  as it is.
\<close>

theorem get_job_response_shapes:
  assumes "session (job_get_url base cnt n) = Inr resp"
    and "resp_status resp = 200"
    and "resp_json resp = Inr jobs"
  shows "(jobs = VDict d \<and> dict_contains ''id'' d \<and> dict_contains ''input'' d \<longrightarrow>
            fst (get_job session base cnt n) = Inr (VList [VDict d]))
         \<and> (jobs = VDict d \<and> \<not> (dict_contains ''id'' d \<and> dict_contains ''input'' d) \<longrightarrow>
            fst (get_job session base cnt n) = Inr (VList [])
            \<and> ErrorFailedToGetJob ''Exception'' ''Job has missing field(s): id or input.''
                 \<in> set (snd (get_job session base cnt n)))
         \<and> (jobs = VList js \<longrightarrow> fst (get_job session base cnt n) = Inr (VList js))"
  using assms get_job_200 [of session base cnt n resp jobs] by auto

theorem get_job_response_shapes_witness:
  "fst (get_job (always (Inr \<lparr>resp_status = 200,
          resp_json = Inr (VDict [(''id'', VStr ''a''), (''input'', VDict [])])\<rparr>))
        ''https://api.runpod.ai/v2/ep/job-take/w1?gpu=A'' 0 1)
     = Inr (VList [VDict [(''id'', VStr ''a''), (''input'', VDict [])]])
   \<and> fst (get_job (always (Inr \<lparr>resp_status = 200, resp_json = Inr (VDict [(''id'', VStr ''a'')])\<rparr>))
        ''https://api.runpod.ai/v2/ep/job-take/w1?gpu=A'' 0 1) = Inr (VList [])
   \<and> fst (get_job (always (Inr \<lparr>resp_status = 200,
          resp_json = Inr (VList [VDict [(''id'', VStr ''a''), (''input'', VDict [])],
                                  VDict [(''id'', VStr ''b''), (''input'', VDict [])]])\<rparr>))
        ''https://api.runpod.ai/v2/ep/job-take-batch/w1?gpu=A'' 0 5)
     = Inr (VList [VDict [(''id'', VStr ''a''), (''input'', VDict [])],
                   VDict [(''id'', VStr ''b''), (''input'', VDict [])]])"
  using
    get_job_response_shapes
      [of "always (Inr \<lparr>resp_status = 200,
          resp_json = Inr (VDict [(''id'', VStr ''a''), (''input'', VDict [])])\<rparr>)"
          "''https://api.runpod.ai/v2/ep/job-take/w1?gpu=A''" 0 1
          "\<lparr>resp_status = 200,
          resp_json = Inr (VDict [(''id'', VStr ''a''), (''input'', VDict [])])\<rparr>"
          "VDict [(''id'', VStr ''a''), (''input'', VDict [])]"
          "[(''id'', VStr ''a''), (''input'', VDict [])]"]
    get_job_response_shapes
      [of "always (Inr \<lparr>resp_status = 200, resp_json = Inr (VDict [(''id'', VStr ''a'')])\<rparr>)"
          "''https://api.runpod.ai/v2/ep/job-take/w1?gpu=A''" 0 1
          "\<lparr>resp_status = 200, resp_json = Inr (VDict [(''id'', VStr ''a'')])\<rparr>"
          "VDict [(''id'', VStr ''a'')]"
          "[(''id'', VStr ''a'')]"]
    get_job_response_shapes
      [of "always (Inr \<lparr>resp_status = 200,
          resp_json = Inr (VList [VDict [(''id'', VStr ''a''), (''input'', VDict [])],
                                  VDict [(''id'', VStr ''b''), (''input'', VDict [])]])\<rparr>)"
          "''https://api.runpod.ai/v2/ep/job-take-batch/w1?gpu=A''" 0 5
          "\<lparr>resp_status = 200,
          resp_json = Inr (VList [VDict [(''id'', VStr ''a''), (''input'', VDict [])],
                                  VDict [(''id'', VStr ''b''), (''input'', VDict [])]])\<rparr>"
          "VList [VDict [(''id'', VStr ''a''), (''input'', VDict [])],
                                  VDict [(''id'', VStr ''b''), (''input'', VDict [])]]"
          _
          "[VDict [(''id'', VStr ''a''), (''input'', VDict [])],
                                  VDict [(''id'', VStr ''b''), (''input'', VDict [])]]"]
  by (simp add: always_def dict_contains_def)

text \<open>
  C10. On a 200 response whose body decodes to a value that is neither an object nor an
  array, \<^verbatim>\<open>get_job\<close> takes neither branch and returns the empty list.
\<close>

theorem get_job_other_json_body:
  assumes "session (job_get_url base cnt n) = Inr resp"
    and "resp_status resp = 200"
    and "resp_json resp = Inr jobs"
    and "\<forall>d. jobs \<noteq> VDict d"
    and "\<forall>js. jobs \<noteq> VList js"
  shows "fst (get_job session base cnt n) = Inr (VList [])"
  using assms get_job_200 [of session base cnt n resp jobs] by (cases jobs) auto

theorem get_job_other_json_body_witness:
  "fst (get_job (always (Inr \<lparr>resp_status = 200, resp_json = Inr (VStr ''busy'')\<rparr>))
        ''https://api.runpod.ai/v2/ep/job-take/w1?gpu=A'' 0 1) = Inr (VList [])
   \<and> fst (get_job (always (Inr \<lparr>resp_status = 200, resp_json = Inr VNone\<rparr>))
        ''https://api.runpod.ai/v2/ep/job-take/w1?gpu=A'' 0 1) = Inr (VList [])"
  using
    get_job_other_json_body
      [of "always (Inr \<lparr>resp_status = 200, resp_json = Inr (VStr ''busy'')\<rparr>)"
          "''https://api.runpod.ai/v2/ep/job-take/w1?gpu=A''" 0 1
          "\<lparr>resp_status = 200, resp_json = Inr (VStr ''busy'')\<rparr>" "VStr ''busy''"]
    get_job_other_json_body
      [of "always (Inr \<lparr>resp_status = 200, resp_json = Inr VNone\<rparr>)"
          "''https://api.runpod.ai/v2/ep/job-take/w1?gpu=A''" 0 1
          "\<lparr>resp_status = 200, resp_json = Inr VNone\<rparr>" "VNone"]
  by (simp add: always_def)

section \<open>Invocation, terminal form: properties\<close>

lemma dict_getitem_contains:
  "dict_contains k d \<Longrightarrow> \<exists>v. dict_getitem d k = Inr v"
  by (cases "map_of d k") (auto simp: dict_contains_def dict_getitem_def map_of_eq_None_iff)

lemma map_of_dict_remove:
  "map_of (dict_remove k d) k' = (if k' = k then None else map_of d k')"
  by (induction d) (auto simp: dict_remove_def)

lemma dict_get_dict_remove:
  "k' \<noteq> k \<Longrightarrow> dict_get (dict_remove k d) k' = dict_get d k'"
  by (simp add: dict_get_def map_of_dict_remove)

lemma dict_contains_dict_remove:
  "dict_contains k' (dict_remove k d) \<longleftrightarrow> k' \<noteq> k \<and> dict_contains k' d"
  by (auto simp: dict_contains_def dict_remove_def)

lemma truthy_dict_get_contains: "truthy (dict_get d k) \<Longrightarrow> dict_contains k d"
  by (cases "map_of d k") (auto simp: dict_get_def dict_contains_def dest: map_of_SomeD intro: rev_image_eqI)

lemma normalize_job_output_dict:
  "normalize_job_output (VDict d) =
     ((''output'', VDict (dict_remove ''refresh_worker'' (dict_remove ''error'' d)))
        # (if truthy (dict_get d ''error'') then [(''error'', dict_get d ''error'')] else [])
        @ (if truthy (dict_get d ''refresh_worker'') then [(''stopPod'', VBool True)] else []),
      VDict (dict_remove ''refresh_worker'' (dict_remove ''error'' d)))"
  by (simp add: normalize_job_output_def dict_pop_default_def dict_set_def dict_contains_def
      dict_get_dict_remove)

lemma drop_empty_output_dict:
  "drop_empty_output (fst (normalize_job_output (VDict d))) =
     Inr ((if dict_remove ''refresh_worker'' (dict_remove ''error'' d) = [] then []
           else [(''output'', VDict (dict_remove ''refresh_worker'' (dict_remove ''error'' d)))])
          @ (if truthy (dict_get d ''error'') then [(''error'', dict_get d ''error'')] else [])
          @ (if truthy (dict_get d ''refresh_worker'') then [(''stopPod'', VBool True)] else []))"
  by (simp add: normalize_job_output_dict drop_empty_output_def eq_empty_dict_def dict_get_def
      dict_remove_def)

lemma run_job_try_returns:
  "dict_contains ''id'' job \<Longrightarrow> resolve_handler_return handler_return = Inr job_output \<Longrightarrow>
   run_job_try check_return_size handler_return job =
     (case drop_empty_output (fst (normalize_job_output job_output)) of
        Inl err \<Rightarrow> (Inl (ExceptionInstance err), Some (snd (normalize_job_output job_output)))
      | Inr run_result \<Rightarrow>
          (case check_return_size run_result of
             Some r \<Rightarrow> (Inl r, Some (snd (normalize_job_output job_output)))
           | None \<Rightarrow> (Inr run_result, Some (snd (normalize_job_output job_output)))))"
  using dict_getitem_contains [of "''id''" job]
  by (auto simp: run_job_try_def case_prod_beta split: sum.split option.split)

lemma run_job_handler_returns:
  "dict_contains ''id'' job \<Longrightarrow> resolve_handler_return (handler job) = Inr job_output \<Longrightarrow>
   run_job env check_return_size handler job =
     (case drop_empty_output (fst (normalize_job_output job_output)) of
        Inl err \<Rightarrow>
          \<lparr>returned = Inr (captured_handler_exception env err),
           handler_object = Some (snd (normalize_job_output job_output))\<rparr>
      | Inr run_result \<Rightarrow>
          (case check_return_size run_result of
             Some err \<Rightarrow>
               \<lparr>returned = Inr (captured_handler_exception env err),
                handler_object = Some (snd (normalize_job_output job_output))\<rparr>
           | None \<Rightarrow>
               \<lparr>returned = Inr run_result,
                handler_object = Some (snd (normalize_job_output job_output))\<rparr>))"
  using dict_getitem_contains [of "''id''" job]
  by (auto simp: run_job_def run_job_full_def run_job_try_returns split: sum.split option.split)

lemma run_job_dict_returns:
  assumes "dict_contains ''id'' job"
    and "resolve_handler_return (handler job) = Inr (VDict d)"
  shows "run_job env check_return_size handler job =
     (case check_return_size (projr (drop_empty_output (fst (normalize_job_output (VDict d))))) of
        Some err \<Rightarrow>
          \<lparr>returned = Inr (captured_handler_exception env err),
           handler_object = Some (VDict (dict_remove ''refresh_worker'' (dict_remove ''error'' d)))\<rparr>
      | None \<Rightarrow>
          \<lparr>returned = Inr (projr (drop_empty_output (fst (normalize_job_output (VDict d))))),
           handler_object = Some (VDict (dict_remove ''refresh_worker'' (dict_remove ''error'' d)))\<rparr>)"
proof -
  obtain r where r: "drop_empty_output (fst (normalize_job_output (VDict d))) = Inr r"
    by (simp only: drop_empty_output_dict)
  have s: "snd (normalize_job_output (VDict d))
      = VDict (dict_remove ''refresh_worker'' (dict_remove ''error'' d))"
    by (simp add: normalize_job_output_dict)
  show ?thesis
    using assms run_job_handler_returns [of job handler "VDict d" env check_return_size] r s
    by (simp split: option.split)
qed

lemma size_check_passes_dict:
  "size_check_passes check_return_size (VDict d) \<longleftrightarrow>
   check_return_size (projr (drop_empty_output (fst (normalize_job_output (VDict d))))) = None"
  by (simp add: size_check_passes_def drop_empty_output_dict)

lemma run_job_returns:
  "dict_contains ''id'' job \<Longrightarrow> resolve_handler_return (handler job) = Inr job_output \<Longrightarrow>
   \<exists>run_result. returned (run_job env check_return_size handler job) = Inr run_result"
  by (simp add: run_job_handler_returns split: sum.split option.split)

lemma built_envelope_dict:
  "projr (drop_empty_output (fst (normalize_job_output (VDict d)))) =
     (if dict_remove ''refresh_worker'' (dict_remove ''error'' d) = [] then []
      else [(''output'', VDict (dict_remove ''refresh_worker'' (dict_remove ''error'' d)))])
     @ (if truthy (dict_get d ''error'') then [(''error'', dict_get d ''error'')] else [])
     @ (if truthy (dict_get d ''refresh_worker'') then [(''stopPod'', VBool True)] else [])"
  by (simp only: drop_empty_output_dict sum.sel)

lemma dict_getitem_missing:
  "\<not> dict_contains k d \<Longrightarrow> dict_getitem d k = Inl (KeyError k)"
  by (simp add: dict_contains_def dict_getitem_def map_of_eq_None_iff [symmetric])

lemma run_job_full_no_id:
  "\<not> dict_contains ''id'' job \<Longrightarrow>
   returned (run_job_full env check_return_size handler job)
     = Inl (ExceptionInstance (KeyError ''id''))"
  by (simp add: run_job_full_def dict_getitem_missing)

lemma run_job_full_id_removed:
  assumes "dict_contains ''id'' job"
    and "\<not> dict_contains ''id'' (snd (handler job))"
  shows "returned (run_job_full env check_return_size handler job)
     = Inl (ExceptionInstance (KeyError ''id''))"
proof -
  obtain v where v: "dict_getitem job ''id'' = Inr v"
    using assms(1) dict_getitem_contains by blast
  have m: "dict_getitem (snd (handler job)) ''id'' = Inl (KeyError ''id'')"
    using assms(2) by (rule dict_getitem_missing)
  show ?thesis
  proof (cases "resolve_handler_return (fst (handler job))")
    case (Inl r)
    then show ?thesis
      using v m
      by (cases r) (simp_all add: run_job_full_def run_job_try_def case_prod_beta)
  next
    case (Inr job_output)
    then show ?thesis
      using v m by (simp add: run_job_full_def run_job_try_def case_prod_beta)
  qed
qed

lemma run_job_full_ids:
  assumes "dict_contains ''id'' job"
    and "dict_contains ''id'' (snd (handler job))"
  shows "returned (run_job_full env check_return_size handler job) =
     (case fst (run_job_try check_return_size (fst (handler job)) (snd (handler job))) of
        Inr run_result \<Rightarrow> Inr run_result
      | Inl (ExceptionInstance err) \<Rightarrow> Inr (captured_handler_exception env err)
      | Inl (BaseExceptionOnly b) \<Rightarrow> Inl (BaseExceptionOnly b))"
proof -
  obtain v where v: "dict_getitem job ''id'' = Inr v"
    using assms(1) dict_getitem_contains by blast
  obtain w where w: "dict_getitem (snd (handler job)) ''id'' = Inr w"
    using assms(2) dict_getitem_contains by blast
  show ?thesis
    using v w
    by (simp add: run_job_full_def case_prod_beta split: sum.split raised.split)
qed

lemma run_job_try_raises:
  "resolve_handler_return handler_return = Inl r \<Longrightarrow>
   run_job_try check_return_size handler_return job = (Inl r, None)"
  by (simp add: run_job_try_def)

lemma captured_handler_exception_record:
  "captured_handler_exception env err =
     [(''error'',
       VStr (json_dumps
         [(''error_type'', exc_type_str err),
          (''error_message'', exc_message err),
          (''error_traceback'', exc_traceback err),
          (''hostname'', environ_get (RUNPOD_POD_HOSTNAME env) ''unknown''),
          (''worker_id'', environ_get (RUNPOD_POD_ID env) ''unknown''),
          (''runpod_version'', runpod_version env)]))]"
  by (simp add: captured_handler_exception_def error_info_def)

text \<open>
  C2, as the claim states it, fails. A handler that raises \<^verbatim>\<open>SystemExit\<close>, which is not an
  instance of \<^verbatim>\<open>Exception\<close>, is not caught by \<^verbatim>\<open>except Exception\<close>: \<^verbatim>\<open>run_job\<close> raises it to
  its caller. A job without an \<^verbatim>\<open>id\<close> makes \<^verbatim>\<open>run_job\<close> raise \<^verbatim>\<open>KeyError\<close> at its first log
  call, before the \<^verbatim>\<open>try\<close>.
\<close>

theorem run_job_unhandled_raise_counterexample:
  "returned (run_job_full
       \<lparr>RUNPOD_POD_HOSTNAME = None, RUNPOD_POD_ID = None, runpod_version = ''1.7.0''\<rparr>
       (always None)
       (always (Inl (BaseExceptionOnly ''SystemExit''), [(''id'', VStr ''a''), (''input'', VDict [])]))
       [(''id'', VStr ''a''), (''input'', VDict [])])
     = Inl (BaseExceptionOnly ''SystemExit'')
   \<and> returned (run_job_full
       \<lparr>RUNPOD_POD_HOSTNAME = None, RUNPOD_POD_ID = None, runpod_version = ''1.7.0''\<rparr>
       (always None)
       (always (Inr (Direct (VInt 1)), [(''input'', VDict [])]))
       [(''input'', VDict [])])
     = Inl (ExceptionInstance (KeyError ''id''))"
  by (simp add: run_job_full_def run_job_try_def always_def dict_getitem_def
      resolve_handler_return_def)

text \<open>
  C2, amended. When the job has no \<^verbatim>\<open>id\<close>, or has none any more once the handler is done,
  \<^verbatim>\<open>run_job\<close> raises \<^verbatim>\<open>KeyError\<close>. Otherwise: when the handler call, the await of its result,
  the test of the output against \<^verbatim>\<open>{}\<close> or the size check raises an instance of
  \<^verbatim>\<open>Exception\<close>, \<^verbatim>\<open>run_job\<close> returns a dict whose only key is \<^verbatim>\<open>error\<close>, holding the JSON text
  of the record with the exception type, its message, the traceback, the host name, the
  worker id and the package version, and that dict has no \<^verbatim>\<open>output\<close> key; when the handler
  call, the await or the size check raises something that is not an instance of
  \<^verbatim>\<open>Exception\<close>, \<^verbatim>\<open>run_job\<close> raises it to its caller. \<^verbatim>\<open>run_job\<close> raises in these cases
  and in no other.
\<close>

theorem run_job_full_faults:
  "(\<not> dict_contains ''id'' job \<or> \<not> dict_contains ''id'' (snd (handler job)) \<longrightarrow>
      returned (run_job_full env check_return_size handler job)
        = Inl (ExceptionInstance (KeyError ''id'')))
   \<and> (dict_contains ''id'' job \<and> dict_contains ''id'' (snd (handler job))
        \<and> (fst (handler job) = Inl (ExceptionInstance err)
             \<or> fst (handler job) = Inr (Awaitable (Inl (ExceptionInstance err)))
             \<or> (resolve_handler_return (fst (handler job)) = Inr job_output
                 \<and> drop_empty_output (fst (normalize_job_output job_output)) = Inl err)
             \<or> (resolve_handler_return (fst (handler job)) = Inr job_output
                 \<and> drop_empty_output (fst (normalize_job_output job_output)) = Inr run_result
                 \<and> check_return_size run_result = Some (ExceptionInstance err))) \<longrightarrow>
      returned (run_job_full env check_return_size handler job) =
        Inr [(''error'',
              VStr (json_dumps
                [(''error_type'', exc_type_str err),
                 (''error_message'', exc_message err),
                 (''error_traceback'', exc_traceback err),
                 (''hostname'', environ_get (RUNPOD_POD_HOSTNAME env) ''unknown''),
                 (''worker_id'', environ_get (RUNPOD_POD_ID env) ''unknown''),
                 (''runpod_version'', runpod_version env)]))]
      \<and> (\<forall>envelope. returned (run_job_full env check_return_size handler job) = Inr envelope
            \<longrightarrow> \<not> dict_contains ''output'' envelope))
   \<and> (dict_contains ''id'' job \<and> dict_contains ''id'' (snd (handler job))
        \<and> (resolve_handler_return (fst (handler job)) = Inl (BaseExceptionOnly b)
             \<or> (resolve_handler_return (fst (handler job)) = Inr job_output
                 \<and> drop_empty_output (fst (normalize_job_output job_output)) = Inr run_result
                 \<and> check_return_size run_result = Some (BaseExceptionOnly b))) \<longrightarrow>
      returned (run_job_full env check_return_size handler job) = Inl (BaseExceptionOnly b))
   \<and> ((\<exists>r. returned (run_job_full env check_return_size handler job) = Inl r) \<longleftrightarrow>
        \<not> dict_contains ''id'' job
        \<or> \<not> dict_contains ''id'' (snd (handler job))
        \<or> (\<exists>c. resolve_handler_return (fst (handler job)) = Inl (BaseExceptionOnly c))
        \<or> (\<exists>c v checked. resolve_handler_return (fst (handler job)) = Inr v
              \<and> drop_empty_output (fst (normalize_job_output v)) = Inr checked
              \<and> check_return_size checked = Some (BaseExceptionOnly c)))"
proof (intro conjI impI)
  assume "\<not> dict_contains ''id'' job \<or> \<not> dict_contains ''id'' (snd (handler job))"
  then show "returned (run_job_full env check_return_size handler job)
        = Inl (ExceptionInstance (KeyError ''id''))"
    using run_job_full_no_id [of job env check_return_size handler]
      run_job_full_id_removed [of job handler env check_return_size]
    by (cases "dict_contains ''id'' job") auto
next
  assume h: "dict_contains ''id'' job \<and> dict_contains ''id'' (snd (handler job))
        \<and> (fst (handler job) = Inl (ExceptionInstance err)
             \<or> fst (handler job) = Inr (Awaitable (Inl (ExceptionInstance err)))
             \<or> (resolve_handler_return (fst (handler job)) = Inr job_output
                 \<and> drop_empty_output (fst (normalize_job_output job_output)) = Inl err)
             \<or> (resolve_handler_return (fst (handler job)) = Inr job_output
                 \<and> drop_empty_output (fst (normalize_job_output job_output)) = Inr run_result
                 \<and> check_return_size run_result = Some (ExceptionInstance err)))"
  have "fst (run_job_try check_return_size (fst (handler job)) (snd (handler job)))
      = Inl (ExceptionInstance err)"
  proof -
    consider "resolve_handler_return (fst (handler job)) = Inl (ExceptionInstance err)"
      | "resolve_handler_return (fst (handler job)) = Inr job_output"
        "drop_empty_output (fst (normalize_job_output job_output)) = Inl err"
      | "resolve_handler_return (fst (handler job)) = Inr job_output"
        "drop_empty_output (fst (normalize_job_output job_output)) = Inr run_result"
        "check_return_size run_result = Some (ExceptionInstance err)"
      using h by (auto simp: resolve_handler_return_def)
    then show ?thesis
    proof cases
      case 1
      then show ?thesis by (simp add: run_job_try_raises)
    next
      case 2
      then show ?thesis using h by (simp add: run_job_try_returns)
    next
      case 3
      then show ?thesis using h by (simp add: run_job_try_returns)
    qed
  qed
  then have r: "returned (run_job_full env check_return_size handler job)
      = Inr (captured_handler_exception env err)"
    using h run_job_full_ids [of job handler env check_return_size] by simp
  then show "returned (run_job_full env check_return_size handler job) =
        Inr [(''error'',
              VStr (json_dumps
                [(''error_type'', exc_type_str err),
                 (''error_message'', exc_message err),
                 (''error_traceback'', exc_traceback err),
                 (''hostname'', environ_get (RUNPOD_POD_HOSTNAME env) ''unknown''),
                 (''worker_id'', environ_get (RUNPOD_POD_ID env) ''unknown''),
                 (''runpod_version'', runpod_version env)]))]"
    by (simp only: captured_handler_exception_record)
  from r show "\<forall>envelope. returned (run_job_full env check_return_size handler job) = Inr envelope
            \<longrightarrow> \<not> dict_contains ''output'' envelope"
    by (simp add: captured_handler_exception_def dict_contains_def)
next
  assume h: "dict_contains ''id'' job \<and> dict_contains ''id'' (snd (handler job))
        \<and> (resolve_handler_return (fst (handler job)) = Inl (BaseExceptionOnly b)
             \<or> (resolve_handler_return (fst (handler job)) = Inr job_output
                 \<and> drop_empty_output (fst (normalize_job_output job_output)) = Inr run_result
                 \<and> check_return_size run_result = Some (BaseExceptionOnly b)))"
  have "fst (run_job_try check_return_size (fst (handler job)) (snd (handler job)))
      = Inl (BaseExceptionOnly b)"
    using h by (auto simp: run_job_try_raises run_job_try_returns)
  then show "returned (run_job_full env check_return_size handler job) = Inl (BaseExceptionOnly b)"
    using h run_job_full_ids [of job handler env check_return_size] by simp
next
  show "(\<exists>r. returned (run_job_full env check_return_size handler job) = Inl r) \<longleftrightarrow>
        \<not> dict_contains ''id'' job
        \<or> \<not> dict_contains ''id'' (snd (handler job))
        \<or> (\<exists>c. resolve_handler_return (fst (handler job)) = Inl (BaseExceptionOnly c))
        \<or> (\<exists>c v checked. resolve_handler_return (fst (handler job)) = Inr v
              \<and> drop_empty_output (fst (normalize_job_output v)) = Inr checked
              \<and> check_return_size checked = Some (BaseExceptionOnly c))"
  proof (cases "dict_contains ''id'' job \<and> dict_contains ''id'' (snd (handler job))")
    case False
    then show ?thesis
      using run_job_full_no_id [of job env check_return_size handler]
        run_job_full_id_removed [of job handler env check_return_size]
      by (cases "dict_contains ''id'' job") auto
  next
    case True
    note ids = run_job_full_ids [of job handler env check_return_size]
    show ?thesis
    proof (cases "resolve_handler_return (fst (handler job))")
      case (Inl r)
      then show ?thesis
        using True ids by (cases r) (simp_all add: run_job_try_raises)
    next
      case (Inr v)
      show ?thesis
      proof (cases "drop_empty_output (fst (normalize_job_output v))")
        case (Inl e)
        then show ?thesis
          using True ids Inr by (simp add: run_job_try_returns)
      next
        case checked: (Inr rr)
        show ?thesis
        proof (cases "check_return_size rr")
          case None
          then show ?thesis
            using True ids Inr checked by (simp add: run_job_try_returns)
        next
          case (Some r)
          then show ?thesis
            using True ids Inr checked by (cases r) (simp_all add: run_job_try_returns)
        qed
      qed
    qed
  qed
qed

theorem run_job_full_faults_witness:
  \<open>dict_contains ''id'' [(''id'', VStr ''a''), (''input'', VDict [])]
   \<and> returned (run_job_full
        \<lparr>RUNPOD_POD_HOSTNAME = None, RUNPOD_POD_ID = Some ''w1'', runpod_version = ''1.7.0''\<rparr>
        (always None)
        (always (Inl (ExceptionInstance
                   \<lparr>exc_name = ''ValueError'', exc_type_str = ''<class ValueError>'',
                    exc_message = ''bad input'',
                    exc_traceback = ''Traceback (most recent call last): ...'',
                    exc_is_timeout = False\<rparr>),
                 [(''id'', VStr ''a''), (''input'', VDict [])]))
        [(''id'', VStr ''a''), (''input'', VDict [])])
     = Inr [(''error'', VStr ''{"error_type": "<class ValueError>", "error_message": "bad input", "error_traceback": "Traceback (most recent call last): ...", "hostname": "unknown", "worker_id": "w1", "runpod_version": "1.7.0"}'')]
   \<and> drop_empty_output (fst (normalize_job_output (VObject (Inl
          \<lparr>exc_name = ''ValueError'', exc_type_str = ''<class ValueError>'',
           exc_message = ''ambiguous truth value'', exc_traceback = ''Traceback ...'',
           exc_is_timeout = False\<rparr>))))
       = Inl \<lparr>exc_name = ''ValueError'', exc_type_str = ''<class ValueError>'',
              exc_message = ''ambiguous truth value'', exc_traceback = ''Traceback ...'',
              exc_is_timeout = False\<rparr>
   \<and> returned (run_job_full
        \<lparr>RUNPOD_POD_HOSTNAME = None, RUNPOD_POD_ID = Some ''w1'', runpod_version = ''1.7.0''\<rparr>
        (always None)
        (always (Inr (Direct (VObject (Inl
                   \<lparr>exc_name = ''ValueError'', exc_type_str = ''<class ValueError>'',
                    exc_message = ''ambiguous truth value'', exc_traceback = ''Traceback ...'',
                    exc_is_timeout = False\<rparr>))),
                 [(''id'', VStr ''a''), (''input'', VDict [])]))
        [(''id'', VStr ''a''), (''input'', VDict [])])
     = Inr [(''error'', VStr ''{"error_type": "<class ValueError>", "error_message": "ambiguous truth value", "error_traceback": "Traceback ...", "hostname": "unknown", "worker_id": "w1", "runpod_version": "1.7.0"}'')]
   \<and> returned (run_job_full
        \<lparr>RUNPOD_POD_HOSTNAME = Some ''h1'', RUNPOD_POD_ID = None, runpod_version = ''1.7.0''\<rparr>
        (always (Some (ExceptionInstance
                   \<lparr>exc_name = ''OverflowError'', exc_type_str = ''<class OverflowError>'',
                    exc_message = ''too big'', exc_traceback = ''Traceback ...'',
                    exc_is_timeout = False\<rparr>)))
        (always (Inr (Awaitable (Inr (VDict [(''result'', VInt 1)]))),
                 [(''id'', VStr ''a''), (''input'', VDict [])]))
        [(''id'', VStr ''a''), (''input'', VDict [])])
     = Inr [(''error'', VStr ''{"error_type": "<class OverflowError>", "error_message": "too big", "error_traceback": "Traceback ...", "hostname": "h1", "worker_id": "unknown", "runpod_version": "1.7.0"}'')]
   \<and> returned (run_job_full
        \<lparr>RUNPOD_POD_HOSTNAME = None, RUNPOD_POD_ID = None, runpod_version = ''1.7.0''\<rparr>
        (always None)
        (always (Inr (Awaitable (Inl (BaseExceptionOnly ''CancelledError''))),
                 [(''id'', VStr ''a''), (''input'', VDict [])]))
        [(''id'', VStr ''a''), (''input'', VDict [])])
     = Inl (BaseExceptionOnly ''CancelledError'')
   \<and> \<not> dict_contains ''id'' [(''input'', VDict [])]
   \<and> returned (run_job_full
        \<lparr>RUNPOD_POD_HOSTNAME = None, RUNPOD_POD_ID = None, runpod_version = ''1.7.0''\<rparr>
        (always None)
        (always (Inr (Direct (VInt 1)), [(''input'', VDict [])]))
        [(''id'', VStr ''a''), (''input'', VDict [])])
     = Inl (ExceptionInstance (KeyError ''id''))\<close>
proof -
  have handler_raises:
    \<open>returned (run_job_full
          \<lparr>RUNPOD_POD_HOSTNAME = None, RUNPOD_POD_ID = Some ''w1'', runpod_version = ''1.7.0''\<rparr>
          (always None)
          (always (Inl (ExceptionInstance
                     \<lparr>exc_name = ''ValueError'', exc_type_str = ''<class ValueError>'',
                      exc_message = ''bad input'',
                      exc_traceback = ''Traceback (most recent call last): ...'',
                      exc_is_timeout = False\<rparr>),
                   [(''id'', VStr ''a''), (''input'', VDict [])]))
          [(''id'', VStr ''a''), (''input'', VDict [])])
       = Inr [(''error'', VStr ''{"error_type": "<class ValueError>", "error_message": "bad input", "error_traceback": "Traceback (most recent call last): ...", "hostname": "unknown", "worker_id": "w1", "runpod_version": "1.7.0"}'')]\<close>
    using run_job_full_faults
      [where job = "[(''id'', VStr ''a''), (''input'', VDict [])]"
         and handler = "always (Inl (ExceptionInstance
                   \<lparr>exc_name = ''ValueError'', exc_type_str = ''<class ValueError>'',
                    exc_message = ''bad input'',
                    exc_traceback = ''Traceback (most recent call last): ...'',
                    exc_is_timeout = False\<rparr>),
                 [(''id'', VStr ''a''), (''input'', VDict [])])"
         and err = "\<lparr>exc_name = ''ValueError'', exc_type_str = ''<class ValueError>'',
                    exc_message = ''bad input'',
                    exc_traceback = ''Traceback (most recent call last): ...'',
                    exc_is_timeout = False\<rparr>"
         and check_return_size = "always None"
         and env = "\<lparr>RUNPOD_POD_HOSTNAME = None, RUNPOD_POD_ID = Some ''w1'', runpod_version = ''1.7.0''\<rparr>"]
    by (simp add: always_def dict_contains_def environ_get_def json_dumps_def json_string_def
        json_escape_char_def resolve_handler_return_def normalize_job_output_def
        drop_empty_output_def eq_empty_dict_def dict_get_def dict_remove_def
        dict_pop_default_def dict_set_def)
  have normalization_raises:
    \<open>returned (run_job_full
          \<lparr>RUNPOD_POD_HOSTNAME = None, RUNPOD_POD_ID = Some ''w1'', runpod_version = ''1.7.0''\<rparr>
          (always None)
          (always (Inr (Direct (VObject (Inl
                     \<lparr>exc_name = ''ValueError'', exc_type_str = ''<class ValueError>'',
                      exc_message = ''ambiguous truth value'', exc_traceback = ''Traceback ...'',
                      exc_is_timeout = False\<rparr>))),
                   [(''id'', VStr ''a''), (''input'', VDict [])]))
          [(''id'', VStr ''a''), (''input'', VDict [])])
       = Inr [(''error'', VStr ''{"error_type": "<class ValueError>", "error_message": "ambiguous truth value", "error_traceback": "Traceback ...", "hostname": "unknown", "worker_id": "w1", "runpod_version": "1.7.0"}'')]\<close>
    using run_job_full_faults
      [where job = "[(''id'', VStr ''a''), (''input'', VDict [])]"
         and handler = "always (Inr (Direct (VObject (Inl
                   \<lparr>exc_name = ''ValueError'', exc_type_str = ''<class ValueError>'',
                    exc_message = ''ambiguous truth value'', exc_traceback = ''Traceback ...'',
                    exc_is_timeout = False\<rparr>))),
                 [(''id'', VStr ''a''), (''input'', VDict [])])"
         and err = "\<lparr>exc_name = ''ValueError'', exc_type_str = ''<class ValueError>'',
                    exc_message = ''ambiguous truth value'', exc_traceback = ''Traceback ...'',
                    exc_is_timeout = False\<rparr>"
         and job_output = "VObject (Inl
                   \<lparr>exc_name = ''ValueError'', exc_type_str = ''<class ValueError>'',
                    exc_message = ''ambiguous truth value'', exc_traceback = ''Traceback ...'',
                    exc_is_timeout = False\<rparr>)"
         and check_return_size = "always None"
         and env = "\<lparr>RUNPOD_POD_HOSTNAME = None, RUNPOD_POD_ID = Some ''w1'', runpod_version = ''1.7.0''\<rparr>"]
    by (simp add: always_def dict_contains_def environ_get_def json_dumps_def json_string_def
        json_escape_char_def resolve_handler_return_def normalize_job_output_def
        drop_empty_output_def eq_empty_dict_def dict_get_def dict_remove_def
        dict_pop_default_def dict_set_def)
  have size_check_raises:
    \<open>returned (run_job_full
          \<lparr>RUNPOD_POD_HOSTNAME = Some ''h1'', RUNPOD_POD_ID = None, runpod_version = ''1.7.0''\<rparr>
          (always (Some (ExceptionInstance
                     \<lparr>exc_name = ''OverflowError'', exc_type_str = ''<class OverflowError>'',
                      exc_message = ''too big'', exc_traceback = ''Traceback ...'',
                      exc_is_timeout = False\<rparr>)))
          (always (Inr (Awaitable (Inr (VDict [(''result'', VInt 1)]))),
                   [(''id'', VStr ''a''), (''input'', VDict [])]))
          [(''id'', VStr ''a''), (''input'', VDict [])])
       = Inr [(''error'', VStr ''{"error_type": "<class OverflowError>", "error_message": "too big", "error_traceback": "Traceback ...", "hostname": "h1", "worker_id": "unknown", "runpod_version": "1.7.0"}'')]\<close>
    using run_job_full_faults
      [where job = "[(''id'', VStr ''a''), (''input'', VDict [])]"
         and handler = "always (Inr (Awaitable (Inr (VDict [(''result'', VInt 1)]))),
                 [(''id'', VStr ''a''), (''input'', VDict [])])"
         and err = "\<lparr>exc_name = ''OverflowError'', exc_type_str = ''<class OverflowError>'',
                    exc_message = ''too big'', exc_traceback = ''Traceback ...'',
                    exc_is_timeout = False\<rparr>"
         and job_output = "VDict [(''result'', VInt 1)]"
         and run_result = "[(''output'', VDict [(''result'', VInt 1)])]"
         and check_return_size = "always (Some (ExceptionInstance
                   \<lparr>exc_name = ''OverflowError'', exc_type_str = ''<class OverflowError>'',
                    exc_message = ''too big'', exc_traceback = ''Traceback ...'',
                    exc_is_timeout = False\<rparr>))"
         and env = "\<lparr>RUNPOD_POD_HOSTNAME = Some ''h1'', RUNPOD_POD_ID = None, runpod_version = ''1.7.0''\<rparr>"]
    by (simp add: always_def dict_contains_def environ_get_def json_dumps_def json_string_def
        json_escape_char_def resolve_handler_return_def normalize_job_output_def
        drop_empty_output_def eq_empty_dict_def dict_get_def dict_remove_def
        dict_pop_default_def dict_set_def)
  have await_cancelled:
    \<open>returned (run_job_full
          \<lparr>RUNPOD_POD_HOSTNAME = None, RUNPOD_POD_ID = None, runpod_version = ''1.7.0''\<rparr>
          (always None)
          (always (Inr (Awaitable (Inl (BaseExceptionOnly ''CancelledError''))),
                   [(''id'', VStr ''a''), (''input'', VDict [])]))
          [(''id'', VStr ''a''), (''input'', VDict [])])
       = Inl (BaseExceptionOnly ''CancelledError'')\<close>
    using run_job_full_faults
      [where job = "[(''id'', VStr ''a''), (''input'', VDict [])]"
         and handler = "always (Inr (Awaitable (Inl (BaseExceptionOnly ''CancelledError''))),
                 [(''id'', VStr ''a''), (''input'', VDict [])])"
         and b = "''CancelledError''"
         and check_return_size = "always None"
         and env = "\<lparr>RUNPOD_POD_HOSTNAME = None, RUNPOD_POD_ID = None, runpod_version = ''1.7.0''\<rparr>"]
    by (simp add: always_def dict_contains_def environ_get_def json_dumps_def json_string_def
        json_escape_char_def resolve_handler_return_def normalize_job_output_def
        drop_empty_output_def eq_empty_dict_def dict_get_def dict_remove_def
        dict_pop_default_def dict_set_def)
  have id_removed:
    \<open>returned (run_job_full
          \<lparr>RUNPOD_POD_HOSTNAME = None, RUNPOD_POD_ID = None, runpod_version = ''1.7.0''\<rparr>
          (always None)
          (always (Inr (Direct (VInt 1)), [(''input'', VDict [])]))
          [(''id'', VStr ''a''), (''input'', VDict [])])
       = Inl (ExceptionInstance (KeyError ''id''))\<close>
    using run_job_full_faults
      [where job = "[(''id'', VStr ''a''), (''input'', VDict [])]"
         and handler = "always (Inr (Direct (VInt 1)), [(''input'', VDict [])])"
         and check_return_size = "always None"
         and env = "\<lparr>RUNPOD_POD_HOSTNAME = None, RUNPOD_POD_ID = None, runpod_version = ''1.7.0''\<rparr>"]
    by (simp add: always_def dict_contains_def environ_get_def json_dumps_def json_string_def
        json_escape_char_def resolve_handler_return_def normalize_job_output_def
        drop_empty_output_def eq_empty_dict_def dict_get_def dict_remove_def
        dict_pop_default_def dict_set_def)
  show ?thesis
    using handler_raises normalization_raises size_check_raises await_cancelled id_removed
    by (simp add: dict_contains_def normalize_job_output_def drop_empty_output_def
        eq_empty_dict_def dict_get_def)
qed

text \<open>
  C3, as the claim states it, fails: an \<^verbatim>\<open>error\<close> value that is present but falsy, here the
  empty string, does not reach the returned dict, because \<^verbatim>\<open>run_job\<close> tests \<^verbatim>\<open>if error_msg:\<close>.
\<close>

theorem run_job_falsy_error_counterexample:
  "dict_contains ''error'' [(''error'', VStr ''''), (''result'', VInt 1)]
   \<and> returned (run_job \<lparr>RUNPOD_POD_HOSTNAME = None, RUNPOD_POD_ID = None, runpod_version = ''1.7.0''\<rparr>
        (always None)
        (always (Inr (Direct (VDict [(''error'', VStr ''''), (''result'', VInt 1)]))))
        [(''id'', VStr ''a''), (''input'', VDict [])])
     = Inr [(''output'', VDict [(''result'', VInt 1)])]"
  by (simp add: run_job_def run_job_full_def run_job_try_def always_def dict_getitem_def dict_contains_def
      resolve_handler_return_def normalize_job_output_def dict_pop_default_def dict_get_def
      dict_remove_def dict_set_def drop_empty_output_def eq_empty_dict_def)

text \<open>
  C3, amended. For a job that carries an \<^verbatim>\<open>id\<close>, a handler that returns a mapping and a size
  check that passes: \<^verbatim>\<open>run_job\<close> removes the keys \<^verbatim>\<open>error\<close> and \<^verbatim>\<open>refresh_worker\<close>; the remaining
  mapping becomes \<^verbatim>\<open>output\<close> unless it is empty, in which case there is no \<^verbatim>\<open>output\<close> key; a
  truthy \<^verbatim>\<open>error\<close> value becomes the \<^verbatim>\<open>error\<close> of the returned dict and a falsy one is dropped;
  a truthy \<^verbatim>\<open>refresh_worker\<close> adds \<^verbatim>\<open>stopPod: True\<close>.
\<close>

theorem run_job_mapping_envelope:
  assumes "dict_contains ''id'' job"
    and "resolve_handler_return (handler job) = Inr (VDict d)"
    and "size_check_passes check_return_size (VDict d)"
    and "remaining = dict_remove ''refresh_worker'' (dict_remove ''error'' d)"
  shows "returned (run_job env check_return_size handler job) =
           Inr ((if remaining = [] then [] else [(''output'', VDict remaining)])
                @ (if truthy (dict_get d ''error'') then [(''error'', dict_get d ''error'')] else [])
                @ (if truthy (dict_get d ''refresh_worker'') then [(''stopPod'', VBool True)]
                   else []))
         \<and> map_of remaining = map_of d |` (- {''error'', ''refresh_worker''})"
proof
  have "check_return_size (projr (drop_empty_output (fst (normalize_job_output (VDict d))))) = None"
    using assms(3) by (simp add: size_check_passes_dict)
  then have "returned (run_job env check_return_size handler job)
      = Inr (projr (drop_empty_output (fst (normalize_job_output (VDict d)))))"
    using assms(1,2) by (simp add: run_job_dict_returns)
  then show "returned (run_job env check_return_size handler job) =
           Inr ((if remaining = [] then [] else [(''output'', VDict remaining)])
                @ (if truthy (dict_get d ''error'') then [(''error'', dict_get d ''error'')] else [])
                @ (if truthy (dict_get d ''refresh_worker'') then [(''stopPod'', VBool True)]
                   else []))"
    unfolding assms(4) by (simp only: built_envelope_dict)
  show "map_of remaining = map_of d |` (- {''error'', ''refresh_worker''})"
    unfolding assms(4) by (rule ext) (simp add: map_of_dict_remove restrict_map_def)
qed

theorem run_job_mapping_envelope_witness:
  "dict_contains ''id'' [(''id'', VStr ''a''), (''input'', VDict [])]
   \<and> size_check_passes (always None) (VDict [(''error'', VStr ''x''), (''result'', VInt 1)])
   \<and> returned (run_job \<lparr>RUNPOD_POD_HOSTNAME = None, RUNPOD_POD_ID = None, runpod_version = ''1.7.0''\<rparr>
        (always None)
        (always (Inr (Direct (VDict [(''error'', VStr ''x''), (''result'', VInt 1)]))))
        [(''id'', VStr ''a''), (''input'', VDict [])])
     = Inr [(''output'', VDict [(''result'', VInt 1)]), (''error'', VStr ''x'')]"
  using run_job_mapping_envelope
    [of "[(''id'', VStr ''a''), (''input'', VDict [])]"
        "always (Inr (Direct (VDict [(''error'', VStr ''x''), (''result'', VInt 1)])))"
        "[(''error'', VStr ''x''), (''result'', VInt 1)]"
        "always None"
        "[(''result'', VInt 1)]"
        "\<lparr>RUNPOD_POD_HOSTNAME = None, RUNPOD_POD_ID = None, runpod_version = ''1.7.0''\<rparr>"]
  by (simp add: always_def dict_contains_def size_check_passes_dict built_envelope_dict
      resolve_handler_return_def dict_remove_def dict_get_def)

text \<open>
  C7. For a job that carries an \<^verbatim>\<open>id\<close> and a handler that returns a mapping with no key
  other than \<^verbatim>\<open>error\<close> and \<^verbatim>\<open>refresh_worker\<close> (the empty mapping among them), the dict that
  \<^verbatim>\<open>run_job\<close> returns has no \<^verbatim>\<open>output\<close> key.
\<close>

theorem run_job_empty_output_omitted:
  assumes "dict_contains ''id'' job"
    and "resolve_handler_return (handler job) = Inr (VDict d)"
    and "fst ` set d \<subseteq> {''error'', ''refresh_worker''}"
  shows "\<exists>run_result. returned (run_job env check_return_size handler job) = Inr run_result
           \<and> \<not> dict_contains ''output'' run_result"
proof -
  have "dict_remove ''refresh_worker'' (dict_remove ''error'' d) = []"
    using assms(3) by (auto simp: dict_remove_def filter_empty_conv)
  then have "\<not> dict_contains ''output'' (projr (drop_empty_output (fst (normalize_job_output (VDict d)))))"
    by (auto simp: built_envelope_dict dict_contains_def)
  moreover have "\<not> dict_contains ''output'' (captured_handler_exception env err)" for err
    by (simp add: captured_handler_exception_def dict_contains_def)
  ultimately show ?thesis
    using assms(1,2) by (simp add: run_job_dict_returns split: option.split)
qed

theorem run_job_empty_output_omitted_witness:
  "dict_contains ''id'' [(''id'', VStr ''a''), (''input'', VDict [])]
   \<and> returned (run_job \<lparr>RUNPOD_POD_HOSTNAME = None, RUNPOD_POD_ID = None, runpod_version = ''1.7.0''\<rparr>
        (always None) (always (Inr (Direct (VDict []))))
        [(''id'', VStr ''a''), (''input'', VDict [])]) = Inr []
   \<and> \<not> dict_contains ''output'' []"
  using run_job_empty_output_omitted
    [of "[(''id'', VStr ''a''), (''input'', VDict [])]"
        "always (Inr (Direct (VDict [])))" "[]"
        "\<lparr>RUNPOD_POD_HOSTNAME = None, RUNPOD_POD_ID = None, runpod_version = ''1.7.0''\<rparr>"
        "always None"]
  by (simp add: run_job_def run_job_full_def run_job_try_def always_def dict_getitem_def dict_contains_def
      resolve_handler_return_def normalize_job_output_def dict_pop_default_def dict_get_def
      dict_remove_def dict_set_def drop_empty_output_def eq_empty_dict_def)

text \<open>
  C8. For a job that carries an \<^verbatim>\<open>id\<close> and a handler that returns a mapping with a
  \<^verbatim>\<open>refresh_worker\<close> key: when the value is truthy and the size check passes, the returned
  dict has \<^verbatim>\<open>stopPod: True\<close>; the key \<^verbatim>\<open>refresh_worker\<close> is neither in the returned dict nor in
  its \<^verbatim>\<open>output\<close>; when the value is falsy, the returned dict has no \<^verbatim>\<open>stopPod\<close> key.
\<close>

theorem run_job_refresh_worker:
  assumes "dict_contains ''id'' job"
    and "resolve_handler_return (handler job) = Inr (VDict d)"
    and "dict_contains ''refresh_worker'' d"
    and "returned (run_job env check_return_size handler job) = Inr run_result"
  shows "(truthy (dict_get d ''refresh_worker'') \<and> size_check_passes check_return_size (VDict d)
            \<longrightarrow> map_of run_result ''stopPod'' = Some (VBool True))
         \<and> (\<forall>out. map_of run_result ''output'' = Some out \<longrightarrow>
               (\<exists>remaining. out = VDict remaining
                  \<and> \<not> dict_contains ''refresh_worker'' remaining))
         \<and> \<not> dict_contains ''refresh_worker'' run_result
         \<and> (\<not> truthy (dict_get d ''refresh_worker'') \<longrightarrow> \<not> dict_contains ''stopPod'' run_result)"
proof -
  let ?built = "projr (drop_empty_output (fst (normalize_job_output (VDict d))))"
  have rr: "run_result = ?built \<or> (\<exists>err. run_result = captured_handler_exception env err)"
    using assms(1,2,4) by (auto simp: run_job_dict_returns split: option.splits)
  have passes: "run_result = ?built" if "size_check_passes check_return_size (VDict d)"
    using that assms(1,2,4) by (simp add: run_job_dict_returns size_check_passes_dict)
  have fault: "map_of (captured_handler_exception env err) ''output'' = None"
    "\<not> dict_contains ''refresh_worker'' (captured_handler_exception env err)"
    "\<not> dict_contains ''stopPod'' (captured_handler_exception env err)" for err
    by (simp_all add: captured_handler_exception_def dict_contains_def)
  have built_output: "map_of ?built ''output'' = Some out \<Longrightarrow>
      out = VDict (dict_remove ''refresh_worker'' (dict_remove ''error'' d))" for out
    by (auto simp: built_envelope_dict split: if_splits)
  have built_keys: "\<not> dict_contains ''refresh_worker'' ?built"
    by (auto simp: built_envelope_dict dict_contains_def)
  have built_stop: "\<not> truthy (dict_get d ''refresh_worker'') \<Longrightarrow> \<not> dict_contains ''stopPod'' ?built"
    by (auto simp: built_envelope_dict dict_contains_def)
  have built_stop': "truthy (dict_get d ''refresh_worker'') \<Longrightarrow> map_of ?built ''stopPod'' = Some (VBool True)"
    by (auto simp: built_envelope_dict)
  show ?thesis
  proof (intro conjI impI allI)
    assume "truthy (dict_get d ''refresh_worker'') \<and> size_check_passes check_return_size (VDict d)"
    then show "map_of run_result ''stopPod'' = Some (VBool True)"
      using passes built_stop' by simp
  next
    fix out
    assume "map_of run_result ''output'' = Some out"
    then have "out = VDict (dict_remove ''refresh_worker'' (dict_remove ''error'' d))"
      using rr fault(1) built_output by auto
    then show "\<exists>remaining. out = VDict remaining \<and> \<not> dict_contains ''refresh_worker'' remaining"
      by (simp add: dict_contains_dict_remove)
  next
    show "\<not> dict_contains ''refresh_worker'' run_result"
      using rr fault(2) built_keys by auto
  next
    assume "\<not> truthy (dict_get d ''refresh_worker'')"
    then show "\<not> dict_contains ''stopPod'' run_result"
      using rr fault(3) built_stop by auto
  qed
qed

theorem run_job_refresh_worker_witness:
  "dict_contains ''refresh_worker'' [(''refresh_worker'', VInt 1), (''result'', VInt 7)]
   \<and> truthy (dict_get [(''refresh_worker'', VInt 1), (''result'', VInt 7)] ''refresh_worker'')
   \<and> size_check_passes (always None) (VDict [(''refresh_worker'', VInt 1), (''result'', VInt 7)])
   \<and> returned (run_job \<lparr>RUNPOD_POD_HOSTNAME = None, RUNPOD_POD_ID = None, runpod_version = ''1.7.0''\<rparr>
        (always None)
        (always (Inr (Direct (VDict [(''refresh_worker'', VInt 1), (''result'', VInt 7)]))))
        [(''id'', VStr ''a''), (''input'', VDict [])])
     = Inr [(''output'', VDict [(''result'', VInt 7)]), (''stopPod'', VBool True)]
   \<and> map_of [(''output'', VDict [(''result'', VInt 7)]), (''stopPod'', VBool True)] ''stopPod''
       = Some (VBool True)
   \<and> dict_contains ''refresh_worker'' [(''refresh_worker'', VInt 0), (''result'', VInt 7)]
   \<and> \<not> truthy (dict_get [(''refresh_worker'', VInt 0), (''result'', VInt 7)] ''refresh_worker'')
   \<and> returned (run_job \<lparr>RUNPOD_POD_HOSTNAME = None, RUNPOD_POD_ID = None, runpod_version = ''1.7.0''\<rparr>
        (always None)
        (always (Inr (Direct (VDict [(''refresh_worker'', VInt 0), (''result'', VInt 7)]))))
        [(''id'', VStr ''a''), (''input'', VDict [])])
     = Inr [(''output'', VDict [(''result'', VInt 7)])]
   \<and> \<not> dict_contains ''stopPod'' [(''output'', VDict [(''result'', VInt 7)])]"
  using
    run_job_refresh_worker
      [of "[(''id'', VStr ''a''), (''input'', VDict [])]"
          "always (Inr (Direct (VDict [(''refresh_worker'', VInt 1), (''result'', VInt 7)])))"
          "[(''refresh_worker'', VInt 1), (''result'', VInt 7)]"
          "\<lparr>RUNPOD_POD_HOSTNAME = None, RUNPOD_POD_ID = None, runpod_version = ''1.7.0''\<rparr>"
          "always None"
          "[(''output'', VDict [(''result'', VInt 7)]), (''stopPod'', VBool True)]"]
    run_job_refresh_worker
      [of "[(''id'', VStr ''a''), (''input'', VDict [])]"
          "always (Inr (Direct (VDict [(''refresh_worker'', VInt 0), (''result'', VInt 7)])))"
          "[(''refresh_worker'', VInt 0), (''result'', VInt 7)]"
          "\<lparr>RUNPOD_POD_HOSTNAME = None, RUNPOD_POD_ID = None, runpod_version = ''1.7.0''\<rparr>"
          "always None"
          "[(''output'', VDict [(''result'', VInt 7)])]"]
  by (simp add: run_job_def run_job_full_def run_job_try_def always_def dict_getitem_def dict_contains_def
      resolve_handler_return_def normalize_job_output_def dict_pop_default_def dict_get_def
      dict_remove_def dict_set_def drop_empty_output_def eq_empty_dict_def size_check_passes_def)

text \<open>
  C9, as the claim states it, fails: \<^verbatim>\<open>job_output.pop("error", None)\<close> removes the key from
  the handler's own dict, which no longer holds \<^verbatim>\<open>error\<close> after \<^verbatim>\<open>run_job\<close> returns.
\<close>

theorem run_job_pops_in_place_counterexample:
  "dict_contains ''error'' [(''error'', VStr ''x''), (''result'', VInt 1)]
   \<and> handler_object (run_job \<lparr>RUNPOD_POD_HOSTNAME = None, RUNPOD_POD_ID = None, runpod_version = ''1.7.0''\<rparr>
        (always None)
        (always (Inr (Direct (VDict [(''error'', VStr ''x''), (''result'', VInt 1)]))))
        [(''id'', VStr ''a''), (''input'', VDict [])])
     = Some (VDict [(''result'', VInt 1)])
   \<and> \<not> dict_contains ''error'' [(''result'', VInt 1)]"
  by (simp add: run_job_def run_job_full_def run_job_try_def always_def dict_getitem_def dict_contains_def
      resolve_handler_return_def normalize_job_output_def dict_pop_default_def dict_get_def
      dict_remove_def dict_set_def drop_empty_output_def eq_empty_dict_def)

text \<open>
  C9, amended. For a job that carries an \<^verbatim>\<open>id\<close> and a handler that returns a mapping,
  \<^verbatim>\<open>run_job\<close> pops \<^verbatim>\<open>error\<close> and \<^verbatim>\<open>refresh_worker\<close> from the handler's mapping in place: after the
  call that mapping holds neither key and every other key with its value, and it is what
  the returned dict carries as \<^verbatim>\<open>output\<close> when it is not empty and the size check passes.
\<close>

theorem run_job_handler_mapping_after:
  assumes "dict_contains ''id'' job"
    and "resolve_handler_return (handler job) = Inr (VDict d)"
  shows "\<exists>remaining.
           handler_object (run_job env check_return_size handler job) = Some (VDict remaining)
           \<and> remaining = dict_remove ''refresh_worker'' (dict_remove ''error'' d)
           \<and> \<not> dict_contains ''error'' remaining
           \<and> \<not> dict_contains ''refresh_worker'' remaining
           \<and> map_of remaining = map_of d |` (- {''error'', ''refresh_worker''})
           \<and> (size_check_passes check_return_size (VDict d) \<and> remaining \<noteq> [] \<longrightarrow>
                (\<exists>run_result. returned (run_job env check_return_size handler job) = Inr run_result
                   \<and> map_of run_result ''output'' = Some (VDict remaining)))"
proof -
  let ?rem = "dict_remove ''refresh_worker'' (dict_remove ''error'' d)"
  have "handler_object (run_job env check_return_size handler job) = Some (VDict ?rem)"
    using assms by (simp add: run_job_dict_returns split: option.split)
  moreover have "\<not> dict_contains ''error'' ?rem" "\<not> dict_contains ''refresh_worker'' ?rem"
    by (simp_all add: dict_contains_dict_remove)
  moreover have "map_of ?rem = map_of d |` (- {''error'', ''refresh_worker''})"
    by (rule ext) (simp add: map_of_dict_remove restrict_map_def)
  moreover have "\<exists>run_result. returned (run_job env check_return_size handler job) = Inr run_result
                   \<and> map_of run_result ''output'' = Some (VDict ?rem)"
    if "size_check_passes check_return_size (VDict d)" "?rem \<noteq> []"
  proof -
    have "returned (run_job env check_return_size handler job)
        = Inr (projr (drop_empty_output (fst (normalize_job_output (VDict d)))))"
      using that(1) assms by (simp add: run_job_dict_returns size_check_passes_dict)
    moreover have "map_of (projr (drop_empty_output (fst (normalize_job_output (VDict d))))) ''output''
        = Some (VDict ?rem)"
      using that(2) by (simp add: built_envelope_dict)
    ultimately show ?thesis by simp
  qed
  ultimately show ?thesis by blast
qed

theorem run_job_handler_mapping_after_witness:
  "dict_contains ''id'' [(''id'', VStr ''a''), (''input'', VDict [])]
   \<and> handler_object (run_job \<lparr>RUNPOD_POD_HOSTNAME = None, RUNPOD_POD_ID = None, runpod_version = ''1.7.0''\<rparr>
        (always None)
        (always (Inr (Direct (VDict [(''error'', VStr ''x''), (''refresh_worker'', VBool True),
                                     (''result'', VInt 1)]))))
        [(''id'', VStr ''a''), (''input'', VDict [])])
     = Some (VDict [(''result'', VInt 1)])"
  using run_job_handler_mapping_after
    [of "[(''id'', VStr ''a''), (''input'', VDict [])]"
        "always (Inr (Direct (VDict [(''error'', VStr ''x''), (''refresh_worker'', VBool True),
                                     (''result'', VInt 1)])))"
        "[(''error'', VStr ''x''), (''refresh_worker'', VBool True), (''result'', VInt 1)]"
        "\<lparr>RUNPOD_POD_HOSTNAME = None, RUNPOD_POD_ID = None, runpod_version = ''1.7.0''\<rparr>"
        "always None"]
  by (simp add: always_def dict_contains_def resolve_handler_return_def dict_remove_def)

section \<open>Invocation, streaming form: properties\<close>



end
